theory Spec2Isabelle
  imports Complex_Main
begin

section \<open>JavaScript values\<close>

text \<open>
  The server receives its tool arguments as parsed JSON, and the validator is written
  against untyped values (\<^verbatim>\<open>typeof\<close>, \<^verbatim>\<open>Number(...)\<close>, \<^verbatim>\<open>!== undefined\<close>).
  The model therefore carries the JavaScript values themselves.

  A number is a double. Every finite double is a rational, and the comparisons and
  \<^verbatim>\<open>Number.isInteger\<close> used by the source are exact on it, so a finite number is
  modelled by its rational value (the two zeros are one value: they compare alike).
  A string is its sequence of code units; the model carries the code units 0..255 as
  HOL characters. An object is the list of its own properties in insertion order.
\<close>

datatype jsnum = NaN | Fin rat | PosInf | NegInf

datatype jsval =
    JUndefined
  | JNull
  | JBool bool
  | JNum jsnum
  | JStr string
  | JArr "jsval list"
  | JObj "(string \<times> jsval) list"

datatype ErrorCode = InvalidRequest | MethodNotFound | InvalidParams

text \<open>
  What a \<^verbatim>\<open>throw\<close> can carry here: the protocol errors the handlers raise
  themselves, the errors of the HTTP client (\<^verbatim>\<open>error.response?.data\<close>, absent when
  no response arrived, and \<^verbatim>\<open>error.message\<close>), the \<^verbatim>\<open>TypeError\<close> of the
  language (a method call on \<^verbatim>\<open>null\<close>, an object without a primitive value), and
  any other thrown value.
\<close>

datatype js_error =
    McpError ErrorCode string
  | AxiosError "jsval option" string
  | TypeError
  | OtherError string

text \<open>
  Three conversions of the language round to or print a double and are not computed by
  the model: they are parameters of it, and every theorem holds for whatever functions
  they are. \<^verbatim>\<open>JSON_stringify\<close> stands for \<^verbatim>\<open>JSON.stringify(v, null, 2)\<close>.
\<close>

record runtime =
  StringToNumber :: "string \<Rightarrow> jsnum"
  NumberToString :: "jsnum \<Rightarrow> string"
  JSON_stringify :: "jsval \<Rightarrow> string"

fun typeof :: "jsval \<Rightarrow> string" where
  "typeof JUndefined = ''undefined''"
| "typeof JNull = ''object''"
| "typeof (JBool b) = ''boolean''"
| "typeof (JNum n) = ''number''"
| "typeof (JStr s) = ''string''"
| "typeof (JArr xs) = ''object''"
| "typeof (JObj kvs) = ''object''"

text \<open>\<^verbatim>\<open>!v\<close> is the negation of \<open>ToBoolean\<close>.\<close>

fun ToBoolean :: "jsval \<Rightarrow> bool" where
  "ToBoolean JUndefined = False"
| "ToBoolean JNull = False"
| "ToBoolean (JBool b) = b"
| "ToBoolean (JNum n) = (n \<noteq> NaN \<and> n \<noteq> Fin 0)"
| "ToBoolean (JStr s) = (s \<noteq> [])"
| "ToBoolean (JArr xs) = True"
| "ToBoolean (JObj kvs) = True"

text \<open>
  Property read \<^verbatim>\<open>v.k\<close> for the names the source reads (\<^verbatim>\<open>prompt\<close>, ...,
  \<^verbatim>\<open>message\<close>): none of them is a property of a built-in prototype, so the read
  finds an own property of an object or yields \<^verbatim>\<open>undefined\<close>.
\<close>

fun get_prop :: "jsval \<Rightarrow> string \<Rightarrow> jsval" where
  "get_prop (JObj kvs) k = (case map_of kvs k of Some v \<Rightarrow> v | None \<Rightarrow> JUndefined)"
| "get_prop v k = JUndefined"

text \<open>
  \<open>ToString\<close> of the language, as a template literal and \<^verbatim>\<open>Array.prototype.join\<close>
  apply it. An array joins its elements with commas, \<^verbatim>\<open>null\<close> and
  \<^verbatim>\<open>undefined\<close> elements printing as nothing. A parsed JSON object inherits
  \<^verbatim>\<open>Object.prototype.toString\<close> unless an own property \<^verbatim>\<open>toString\<close> (never
  callable in parsed JSON) shadows it; then the conversion throws.
\<close>

fun ToString :: "runtime \<Rightarrow> jsval \<Rightarrow> js_error + string"
  and Array_join :: "runtime \<Rightarrow> jsval list \<Rightarrow> js_error + string" where
  "ToString rt JUndefined = Inr ''undefined''"
| "ToString rt JNull = Inr ''null''"
| "ToString rt (JBool b) = Inr (if b then ''true'' else ''false'')"
| "ToString rt (JNum n) = Inr (NumberToString rt n)"
| "ToString rt (JStr s) = Inr s"
| "ToString rt (JArr xs) = Array_join rt xs"
| "ToString rt (JObj kvs) =
     (if map_of kvs ''toString'' \<noteq> None then Inl TypeError else Inr ''[object Object]'')"
| "Array_join rt [] = Inr []"
| "Array_join rt (x # xs) =
     (case (if x = JUndefined \<or> x = JNull then Inr [] else ToString rt x) of
        Inl e \<Rightarrow> Inl e
      | Inr s \<Rightarrow>
          (if xs = [] then Inr s
           else (case Array_join rt xs of Inl e \<Rightarrow> Inl e | Inr t \<Rightarrow> Inr (s @ '','' @ t))))"

text \<open>
  The method call \<^verbatim>\<open>v.toString()\<close>: as \<open>ToString\<close>, but \<^verbatim>\<open>null\<close> and
  \<^verbatim>\<open>undefined\<close> have no properties and the call throws.
\<close>

definition toString_call :: "runtime \<Rightarrow> jsval \<Rightarrow> js_error + string" where
  "toString_call rt v = (if v = JUndefined \<or> v = JNull then Inl TypeError else ToString rt v)"

text \<open>
  \<^verbatim>\<open>Number(v)\<close>. An array or object is first converted to a primitive, which for
  parsed JSON is its string.
\<close>

fun Number :: "runtime \<Rightarrow> jsval \<Rightarrow> js_error + jsnum" where
  "Number rt JUndefined = Inr NaN"
| "Number rt JNull = Inr (Fin 0)"
| "Number rt (JBool b) = Inr (Fin (if b then 1 else 0))"
| "Number rt (JNum n) = Inr n"
| "Number rt (JStr s) = Inr (StringToNumber rt s)"
| "Number rt v = (case ToString rt v of Inl e \<Rightarrow> Inl e | Inr s \<Rightarrow> Inr (StringToNumber rt s))"

fun isNaN :: "jsnum \<Rightarrow> bool" where
  "isNaN NaN = True"
| "isNaN n = False"

text \<open>\<^verbatim>\<open>a < b\<close> on numbers; \<^verbatim>\<open>a > b\<close> is \<open>js_less b a\<close>.\<close>

fun js_less :: "jsnum \<Rightarrow> jsnum \<Rightarrow> bool" where
  "js_less NaN b = False"
| "js_less a NaN = False"
| "js_less (Fin a) (Fin b) = (a < b)"
| "js_less a NegInf = False"
| "js_less PosInf b = False"
| "js_less NegInf b = True"
| "js_less a PosInf = True"

fun Number_isInteger :: "jsnum \<Rightarrow> bool" where
  "Number_isInteger (Fin r) = (of_int \<lfloor>r\<rfloor> = r)"
| "Number_isInteger n = False"

text \<open>
  \<^verbatim>\<open>list.includes(v)\<close> on a list of strings compares with \<open>SameValueZero\<close>: only an
  equal string is found.
\<close>

fun array_includes :: "string list \<Rightarrow> jsval \<Rightarrow> bool" where
  "array_includes xs (JStr s) = (s \<in> set xs)"
| "array_includes xs v = False"

text \<open>White space and line terminators among the code units 0..255, and \<^verbatim>\<open>trim\<close>.\<close>

definition isWhiteSpace :: "char \<Rightarrow> bool" where
  "isWhiteSpace c =
     (c \<in> {CHR 0x09, CHR 0x0A, CHR 0x0B, CHR 0x0C, CHR 0x0D, CHR 0x20, CHR 0xA0})"

definition trim :: "string \<Rightarrow> string" where
  "trim s = rev (dropWhile isWhiteSpace (rev (dropWhile isWhiteSpace s)))"

section \<open>types.ts: the argument validator\<close>

text \<open>
  The result is \<open>Inr b\<close> when the function returns \<open>b\<close> and \<open>Inl e\<close> when a
  \<^verbatim>\<open>Number(...)\<close> inside it throws. Each check below is one statement of the source;
  it is \<open>Inr True\<close> when the statement falls through and \<open>Inr False\<close> when it
  executes \<^verbatim>\<open>return false\<close>.
\<close>

definition validRatios :: "string list" where
  "validRatios =
     [''21:9'', ''16:9'', ''3:2'', ''4:3'', ''5:4'', ''1:1'', ''4:5'', ''3:4'', ''2:3'',
      ''9:16'', ''9:21'']"

definition check_args :: "jsval \<Rightarrow> bool" where
  "check_args args = (\<not> (\<not> ToBoolean args \<or> typeof args \<noteq> ''object''))"

definition check_prompt :: "jsval \<Rightarrow> bool" where
  "check_prompt args =
     (\<not> (typeof (get_prop args ''prompt'') \<noteq> ''string'' \<or>
         (case get_prop args ''prompt'' of JStr s \<Rightarrow> trim s = [] | _ \<Rightarrow> True)))"

definition check_image_prompt :: "jsval \<Rightarrow> bool" where
  "check_image_prompt args =
     (\<not> (get_prop args ''image_prompt'' \<noteq> JUndefined \<and>
         typeof (get_prop args ''image_prompt'') \<noteq> ''string''))"

definition check_image_prompt_strength :: "runtime \<Rightarrow> jsval \<Rightarrow> js_error + bool" where
  "check_image_prompt_strength rt args =
     (if get_prop args ''image_prompt_strength'' \<noteq> JUndefined then
        (case Number rt (get_prop args ''image_prompt_strength'') of
           Inl e \<Rightarrow> Inl e
         | Inr strength \<Rightarrow>
             Inr (\<not> (isNaN strength \<or> js_less strength (Fin 0) \<or> js_less (Fin 1) strength)))
      else Inr True)"

definition check_aspect_ratio :: "jsval \<Rightarrow> bool" where
  "check_aspect_ratio args =
     (\<not> (get_prop args ''aspect_ratio'' \<noteq> JUndefined \<and>
         \<not> array_includes validRatios (get_prop args ''aspect_ratio'')))"

definition check_safety_tolerance :: "runtime \<Rightarrow> jsval \<Rightarrow> js_error + bool" where
  "check_safety_tolerance rt args =
     (if get_prop args ''safety_tolerance'' \<noteq> JUndefined then
        (case Number rt (get_prop args ''safety_tolerance'') of
           Inl e \<Rightarrow> Inl e
         | Inr tolerance \<Rightarrow>
             Inr (\<not> (\<not> Number_isInteger tolerance \<or> js_less tolerance (Fin 1) \<or>
                     js_less (Fin 6) tolerance)))
      else Inr True)"

definition check_seed :: "runtime \<Rightarrow> jsval \<Rightarrow> js_error + bool" where
  "check_seed rt args =
     (if get_prop args ''seed'' \<noteq> JUndefined then
        (case Number rt (get_prop args ''seed'') of
           Inl e \<Rightarrow> Inl e
         | Inr n \<Rightarrow> Inr (\<not> (\<not> Number_isInteger n)))
      else Inr True)"

definition check_output_format :: "jsval \<Rightarrow> bool" where
  "check_output_format args =
     (\<not> (get_prop args ''output_format'' \<noteq> JUndefined \<and>
         \<not> array_includes [''jpg'', ''png''] (get_prop args ''output_format'')))"

definition check_raw :: "jsval \<Rightarrow> bool" where
  "check_raw args =
     (\<not> (get_prop args ''raw'' \<noteq> JUndefined \<and> typeof (get_prop args ''raw'') \<noteq> ''boolean''))"

definition check_response_format :: "jsval \<Rightarrow> bool" where
  "check_response_format args =
     (\<not> (get_prop args ''response_format'' \<noteq> JUndefined \<and>
         \<not> array_includes [''url'', ''b64_json''] (get_prop args ''response_format'')))"

text \<open>
  Statements in sequence: the next one runs only when this one neither returned
  \<^verbatim>\<open>false\<close> nor threw.
\<close>

definition and_then :: "js_error + bool \<Rightarrow> js_error + bool \<Rightarrow> js_error + bool" where
  "and_then a b = (case a of Inl e \<Rightarrow> Inl e | Inr ok \<Rightarrow> if ok then b else Inr False)"

definition isValidImageGenerationArgs :: "runtime \<Rightarrow> jsval \<Rightarrow> js_error + bool" where
  "isValidImageGenerationArgs rt args =
     and_then (Inr (check_args args))
    (and_then (Inr (check_prompt args))
    (and_then (Inr (check_image_prompt args))
    (and_then (check_image_prompt_strength rt args)
    (and_then (Inr (check_aspect_ratio args))
    (and_then (check_safety_tolerance rt args)
    (and_then (check_seed rt args)
    (and_then (Inr (check_output_format args))
    (and_then (Inr (check_raw args))
              (Inr (check_response_format args))))))))))"

section \<open>index.ts: configuration and state\<close>

text \<open>
  \<^verbatim>\<open>OHMYGPT_API_CONFIG\<close>. The number \<^verbatim>\<open>0.1\<close> is the double nearest to one tenth.
  Of \<^verbatim>\<open>DEFAULT_PARAMS\<close> the source reads only \<^verbatim>\<open>model\<close>.
\<close>

definition FLUX_IMAGE :: string where
  "FLUX_IMAGE = ''/api/v1/ai/draw/flux/pro-ultra-11''"

definition DEFAULT_PARAMS :: "(string \<times> jsval) list" where
  "DEFAULT_PARAMS =
     [(''model'', JStr ''flux-1.1-pro-ultra''),
      (''aspect_ratio'', JStr ''1:1''),
      (''image_prompt_strength'', JNum (Fin (3602879701896397 / 36028797018963968))),
      (''output_format'', JStr ''jpg''),
      (''raw'', JBool False),
      (''safety_tolerance'', JNum (Fin 5)),
      (''response_format'', JStr ''url'')]"

definition MAX_CACHED_GENERATIONS :: nat where
  "MAX_CACHED_GENERATIONS = 5"

text \<open>
  A cached generation. \<^verbatim>\<open>prompt\<close> is stored as the argument value itself
  (\<^verbatim>\<open>params.prompt\<close>), \<^verbatim>\<open>response\<close> is \<^verbatim>\<open>response.data\<close> of the HTTP client.
\<close>

record ImageGeneration =
  prompt :: jsval
  response :: jsval
  timestamp :: string

text \<open>
  The server object. Besides the field \<^verbatim>\<open>recentImageGenerations\<close> of the class, the
  state records every request handed to the HTTP client (path and form fields, in
  order), so that "no upstream call" is a statement about the state.
\<close>

record FluxImageServer =
  recentImageGenerations :: "ImageGeneration list"
  posted :: "(string \<times> (string \<times> string) list) list"

definition new_FluxImageServer :: FluxImageServer where
  "new_FluxImageServer = \<lparr>recentImageGenerations = [], posted = []\<rparr>"

text \<open>
  What the world answers during one request: the outcome of
  \<^verbatim>\<open>await ohmygptAxiosInstance.post(path, formData)\<close> (\<open>Inr\<close> the \<^verbatim>\<open>data\<close> of the
  response, \<open>Inl\<close> the rejection) and the value of \<^verbatim>\<open>new Date().toISOString()\<close>.
\<close>

record environment =
  post :: "string \<Rightarrow> (string \<times> string) list \<Rightarrow> js_error + jsval"
  now :: string

datatype content_item = Text string

record CallToolResult =
  content :: "content_item list"
  isError :: "bool option"

datatype Resource = Resource string string string string

record ResourceContents =
  uri :: string
  mimeType :: string
  text_value :: string

section \<open>index.ts: the generate_image tool\<close>

definition then_do :: "js_error + 'a \<Rightarrow> ('a \<Rightarrow> js_error + 'b) \<Rightarrow> js_error + 'b" where
  "then_do m f = (case m of Inl e \<Rightarrow> Inl e | Inr x \<Rightarrow> f x)"

text \<open>
  \<^verbatim>\<open>formData.append(name, value)\<close> of \<^verbatim>\<open>URLSearchParams\<close>: the value is converted to
  a string and the pair goes to the end of the list.
\<close>

definition formData_append :: "runtime \<Rightarrow> string \<Rightarrow> jsval \<Rightarrow> (string \<times> string) list
    \<Rightarrow> js_error + (string \<times> string) list" where
  "formData_append rt name v formData = then_do (ToString rt v) (\<lambda>s. Inr (formData @ [(name, s)]))"

text \<open>\<^verbatim>\<open>formData.append(name, value.toString())\<close>.\<close>

definition formData_append_toString :: "runtime \<Rightarrow> string \<Rightarrow> jsval \<Rightarrow> (string \<times> string) list
    \<Rightarrow> js_error + (string \<times> string) list" where
  "formData_append_toString rt name v formData =
     then_do (toString_call rt v) (\<lambda>s. formData_append rt name (JStr s) formData)"

text \<open>
  Lines 185 to 197 of the handler: the form is built field by field. String fields are
  guarded by their truth value, the others by \<^verbatim>\<open>!== undefined\<close>.
\<close>

definition buildFormData :: "runtime \<Rightarrow> jsval \<Rightarrow> js_error + (string \<times> string) list" where
  "buildFormData rt params =
     then_do (formData_append rt ''model'' (get_prop (JObj DEFAULT_PARAMS) ''model'') []) (\<lambda>formData.
     then_do (formData_append rt ''prompt'' (get_prop params ''prompt'') formData) (\<lambda>formData.
     then_do (if ToBoolean (get_prop params ''image_prompt'')
              then formData_append rt ''image_prompt'' (get_prop params ''image_prompt'') formData
              else Inr formData) (\<lambda>formData.
     then_do (if get_prop params ''image_prompt_strength'' \<noteq> JUndefined
              then formData_append_toString rt ''image_prompt_strength''
                     (get_prop params ''image_prompt_strength'') formData
              else Inr formData) (\<lambda>formData.
     then_do (if ToBoolean (get_prop params ''aspect_ratio'')
              then formData_append rt ''aspect_ratio'' (get_prop params ''aspect_ratio'') formData
              else Inr formData) (\<lambda>formData.
     then_do (if get_prop params ''safety_tolerance'' \<noteq> JUndefined
              then formData_append_toString rt ''safety_tolerance''
                     (get_prop params ''safety_tolerance'') formData
              else Inr formData) (\<lambda>formData.
     then_do (if get_prop params ''seed'' \<noteq> JUndefined
              then formData_append_toString rt ''seed'' (get_prop params ''seed'') formData
              else Inr formData) (\<lambda>formData.
     then_do (if ToBoolean (get_prop params ''output_format'')
              then formData_append rt ''output_format'' (get_prop params ''output_format'') formData
              else Inr formData) (\<lambda>formData.
     then_do (if get_prop params ''raw'' \<noteq> JUndefined
              then formData_append_toString rt ''raw'' (get_prop params ''raw'') formData
              else Inr formData) (\<lambda>formData.
     (if ToBoolean (get_prop params ''response_format'')
      then formData_append rt ''response_format'' (get_prop params ''response_format'') formData
      else Inr formData))))))))))"

text \<open>
  \<^verbatim>\<open>axios.isAxiosError(error)\<close>, and the value of
  \<^verbatim>\<open>error.response?.data?.message ?? error.message\<close> for such an error.
\<close>

fun isAxiosError :: "js_error \<Rightarrow> bool" where
  "isAxiosError (AxiosError resp m) = True"
| "isAxiosError e = False"

definition optional_get :: "jsval \<Rightarrow> string \<Rightarrow> jsval" where
  "optional_get v k = (if v = JUndefined \<or> v = JNull then JUndefined else get_prop v k)"

definition nullish_or :: "jsval \<Rightarrow> jsval \<Rightarrow> jsval" where
  "nullish_or v w = (if v = JUndefined \<or> v = JNull then w else v)"

fun upstream_message :: "jsval option \<Rightarrow> jsval" where
  "upstream_message None = JUndefined"
| "upstream_message (Some data) = optional_get data ''message''"

text \<open>The \<^verbatim>\<open>catch\<close> block, lines 222 to 233.\<close>

fun catch_block :: "runtime \<Rightarrow> js_error \<Rightarrow> js_error + CallToolResult" where
  "catch_block rt (AxiosError resp m) =
     then_do (ToString rt (nullish_or (upstream_message resp) (JStr m))) (\<lambda>s.
       Inr \<lparr>content = [Text (''OhMyGPT API error: '' @ s)], isError = Some True\<rparr>)"
| "catch_block rt error = Inl error"

text \<open>
  \<^verbatim>\<open>handleGenerateImageTool\<close>, with \<^verbatim>\<open>request.params.arguments\<close> as \<open>params\<close>. The
  result pairs what the call returns (\<open>Inr\<close>) or throws (\<open>Inl\<close>) with the server
  afterwards. The validator runs before the \<^verbatim>\<open>try\<close>, so whatever it throws leaves
  the handler as it is.
\<close>

definition handleGenerateImageTool :: "runtime \<Rightarrow> environment \<Rightarrow> jsval \<Rightarrow> FluxImageServer
    \<Rightarrow> (js_error + CallToolResult) \<times> FluxImageServer" where
  "handleGenerateImageTool rt env params srv =
     (case isValidImageGenerationArgs rt params of
        Inl e \<Rightarrow> (Inl e, srv)
      | Inr valid \<Rightarrow>
          if \<not> valid
          then (Inl (McpError InvalidParams ''Invalid image generation arguments''), srv)
          else
            (case buildFormData rt params of
               Inl error \<Rightarrow> (catch_block rt error, srv)
             | Inr formData \<Rightarrow>
                 (let srv1 = srv\<lparr>posted := posted srv @ [(FLUX_IMAGE, formData)]\<rparr> in
                  case post env FLUX_IMAGE formData of
                    Inl error \<Rightarrow> (catch_block rt error, srv1)
                  | Inr data \<Rightarrow>
                      (let unshifted =
                             \<lparr>prompt = get_prop params ''prompt'', response = data,
                              timestamp = now env\<rparr> # recentImageGenerations srv1;
                           popped =
                             (if length unshifted > MAX_CACHED_GENERATIONS
                              then butlast unshifted else unshifted)
                       in (Inr \<lparr>content = [Text (JSON_stringify rt data)], isError = None\<rparr>,
                           srv1\<lparr>recentImageGenerations := popped\<rparr>)))))"

section \<open>index.ts: resources\<close>

text \<open>
  The pattern \<^verbatim>\<open>^ohmygpt:\/\/images\/(\d+)$\<close>: the fixed prefix followed by one or more
  of the digits 0 to 9 and nothing else; the result is the captured digits.
\<close>

definition isDigit :: "char \<Rightarrow> bool" where
  "isDigit c = (c \<in> set ''0123456789'')"

definition match_image_uri :: "string \<Rightarrow> string option" where
  "match_image_uri u =
     (let prefix = ''ohmygpt://images/''; digits = drop (length prefix) u in
      if take (length prefix) u = prefix \<and> digits \<noteq> [] \<and> list_all isDigit digits
      then Some digits else None)"

text \<open>
  \<^verbatim>\<open>parseInt\<close> on a string of digits. The language rounds a value above \<open>2^53\<close> to a
  double, which is still far beyond every index of the cache, so the exact value
  selects the same element (none); only the number printed in the error message can
  differ there.
\<close>

definition digit_value :: "char \<Rightarrow> nat" where
  "digit_value c = of_char c - 48"

definition parseInt :: "string \<Rightarrow> nat" where
  "parseInt ds = foldl (\<lambda>n c. 10 * n + digit_value c) 0 ds"

text \<open>\<^verbatim>\<open>xs[i]\<close>: the element, or \<^verbatim>\<open>undefined\<close> (here \<open>None\<close>) past the end.\<close>

definition element :: "'a list \<Rightarrow> nat \<Rightarrow> 'a option" where
  "element xs i = (if i < length xs then Some (xs ! i) else None)"

text \<open>
  The handler of \<^verbatim>\<open>ReadResourceRequestSchema\<close>. A cached generation is an object and
  so never falsy: \<^verbatim>\<open>!generation\<close> holds exactly when the index is past the end.
\<close>

definition readResource :: "runtime \<Rightarrow> string \<Rightarrow> FluxImageServer
    \<Rightarrow> js_error + ResourceContents list" where
  "readResource rt u srv =
     (case match_image_uri u of
        Some digits \<Rightarrow>
          (let index = parseInt digits in
           case element (recentImageGenerations srv) index of
             None \<Rightarrow>
               Inl (McpError InvalidRequest
                      (''Image generation not found: '' @ NumberToString rt (Fin (of_nat index))))
           | Some generation \<Rightarrow>
               Inr [\<lparr>uri = u, mimeType = ''application/json'',
                     text_value = JSON_stringify rt (response generation)\<rparr>])
      | None \<Rightarrow> Inl (McpError InvalidRequest (''Unknown resource: '' @ u)))"

text \<open>
  The handler of \<^verbatim>\<open>ListResourcesRequestSchema\<close>: one resource per cached generation,
  named by its position.
\<close>

definition describe :: "runtime \<Rightarrow> nat \<Rightarrow> ImageGeneration \<Rightarrow> js_error + Resource" where
  "describe rt index generation =
     (case prompt generation of
        JStr p \<Rightarrow>
          Inr (Resource
                 (''ohmygpt://images/'' @ NumberToString rt (Fin (of_nat index)))
                 (''Recent image: '' @ take 30 p @ (if length p > 30 then ''...'' else []))
                 ''application/json''
                 (''Image generation for: '' @ p @ '' ('' @ timestamp generation @ '')''))
      | _ \<Rightarrow> Inl TypeError)"

fun listResources_from :: "runtime \<Rightarrow> nat \<Rightarrow> ImageGeneration list \<Rightarrow> js_error + Resource list" where
  "listResources_from rt index [] = Inr []"
| "listResources_from rt index (g # gs) =
     then_do (describe rt index g) (\<lambda>r.
     then_do (listResources_from rt (Suc index) gs) (\<lambda>rs. Inr (r # rs)))"

definition listResources :: "runtime \<Rightarrow> FluxImageServer \<Rightarrow> js_error + Resource list" where
  "listResources rt srv = listResources_from rt 0 (recentImageGenerations srv)"

section \<open>index.ts: the advertised tool and the dispatch\<close>

text \<open>
  The input schema of the tool as the handler of \<^verbatim>\<open>ListToolsRequestSchema\<close> lists it:
  for each property its type, its \<^verbatim>\<open>enum\<close> and its bounds (descriptions left out).
\<close>

record property_schema =
  json_type :: string
  enum_values :: "string list option"
  minimum :: "rat option"
  maximum :: "rat option"

definition inputSchema_properties :: "(string \<times> property_schema) list" where
  "inputSchema_properties =
     [(''prompt'', \<lparr>json_type = ''string'', enum_values = None, minimum = None, maximum = None\<rparr>),
      (''image_prompt'', \<lparr>json_type = ''string'', enum_values = None, minimum = None, maximum = None\<rparr>),
      (''image_prompt_strength'',
         \<lparr>json_type = ''number'', enum_values = None, minimum = Some 0, maximum = Some 1\<rparr>),
      (''aspect_ratio'',
         \<lparr>json_type = ''string'',
          enum_values = Some [''21:9'', ''16:9'', ''3:2'', ''4:3'', ''5:4'', ''1:1'', ''4:5'', ''3:4'',
                       ''2:3'', ''9:16'', ''9:21''],
          minimum = None, maximum = None\<rparr>),
      (''safety_tolerance'',
         \<lparr>json_type = ''integer'', enum_values = None, minimum = Some 1, maximum = Some 6\<rparr>),
      (''seed'', \<lparr>json_type = ''integer'', enum_values = None, minimum = None, maximum = None\<rparr>),
      (''output_format'',
         \<lparr>json_type = ''string'', enum_values = Some [''jpg'', ''png''], minimum = None,
          maximum = None\<rparr>),
      (''raw'', \<lparr>json_type = ''boolean'', enum_values = None, minimum = None, maximum = None\<rparr>),
      (''response_format'',
         \<lparr>json_type = ''string'', enum_values = Some [''url''], minimum = None, maximum = None\<rparr>)]"

definition inputSchema_required :: "string list" where
  "inputSchema_required = [''prompt'']"

datatype request =
    ListResourcesRequest
  | ReadResourceRequest string
  | ListToolsRequest
  | CallToolRequest string jsval

datatype reply =
    Resources "Resource list"
  | Contents "ResourceContents list"
  | Tools "(string \<times> (string \<times> property_schema) list \<times> string list) list"
  | ToolResult CallToolResult

definition lift_reply :: "('a \<Rightarrow> reply) \<Rightarrow> js_error + 'a \<Rightarrow> js_error + reply" where
  "lift_reply f r = then_do r (\<lambda>x. Inr (f x))"

text \<open>The four request handlers the constructor registers.\<close>

fun handleRequest :: "runtime \<Rightarrow> environment \<Rightarrow> request \<Rightarrow> FluxImageServer
    \<Rightarrow> (js_error + reply) \<times> FluxImageServer" where
  "handleRequest rt env ListResourcesRequest srv = (lift_reply Resources (listResources rt srv), srv)"
| "handleRequest rt env (ReadResourceRequest u) srv =
     (lift_reply Contents (readResource rt u srv), srv)"
| "handleRequest rt env ListToolsRequest srv =
     (Inr (Tools [(''generate_image'', inputSchema_properties, inputSchema_required)]), srv)"
| "handleRequest rt env (CallToolRequest name arguments) srv =
     (if name = ''generate_image''
      then (case handleGenerateImageTool rt env arguments srv of
              (r, srv') \<Rightarrow> (lift_reply ToolResult r, srv'))
      else (Inl (McpError MethodNotFound (''Unknown tool: '' @ name)), srv))"

text \<open>
  The server handles one request at a time; a run is a list of requests, each with the
  answers of the world during it.
\<close>

fun run :: "runtime \<Rightarrow> (environment \<times> request) list \<Rightarrow> FluxImageServer \<Rightarrow> FluxImageServer" where
  "run rt [] srv = srv"
| "run rt ((env, req) # rest) srv = run rt rest (snd (handleRequest rt env req srv))"

text \<open>
  A request is a successful generation when it returns a tool result that is not marked
  as an error. \<open>successes\<close> counts them over a run, and \<open>inserted\<close> collects, oldest
  first, the entry found at the front of the cache right after each of them.
\<close>

fun generated :: "js_error + reply \<Rightarrow> bool" where
  "generated (Inr (ToolResult r)) = (isError r \<noteq> Some True)"
| "generated out = False"

fun successes :: "runtime \<Rightarrow> (environment \<times> request) list \<Rightarrow> FluxImageServer \<Rightarrow> nat" where
  "successes rt [] srv = 0"
| "successes rt ((env, req) # rest) srv =
     (case handleRequest rt env req srv of
        (out, srv') \<Rightarrow> (if generated out then 1 else 0) + successes rt rest srv')"

fun inserted :: "runtime \<Rightarrow> (environment \<times> request) list \<Rightarrow> FluxImageServer
    \<Rightarrow> ImageGeneration list" where
  "inserted rt [] srv = []"
| "inserted rt ((env, req) # rest) srv =
     (case handleRequest rt env req srv of
        (out, srv') \<Rightarrow>
          (if generated out then take 1 (recentImageGenerations srv') else [])
          @ inserted rt rest srv')"

section \<open>Auxiliary definitions for the statements\<close>

text \<open>The same arguments with one property left out.\<close>

fun without :: "string \<Rightarrow> jsval \<Rightarrow> jsval" where
  "without k (JObj kvs) = JObj (filter (\<lambda>(k', v). k' \<noteq> k) kvs)"
| "without k v = v"

text \<open>The optional fields of a request, in the order the form is built.\<close>

definition optional_fields :: "string list" where
  "optional_fields =
     [''image_prompt'', ''image_prompt_strength'', ''aspect_ratio'', ''safety_tolerance'',
      ''seed'', ''output_format'', ''raw'', ''response_format'']"

subsection \<open>A runtime for the examples\<close>

text \<open>
  The theorems hold for every runtime. The examples evaluate the model on concrete
  inputs and need one: \<open>example_runtime\<close> converts decimal integers as the language does
  (a string that is not a decimal integer counts as not numeric, and a number that is
  not an integer prints as a quotient, which the language never prints), and formats
  parsed JSON as \<^verbatim>\<open>JSON.stringify(v, null, 2)\<close> does.
\<close>

fun decimal :: "nat \<Rightarrow> string" where
  "decimal n =
     (if n < 10 then [char_of (48 + n)] else decimal (n div 10) @ [char_of (48 + n mod 10)])"

declare decimal.simps [simp del]

definition example_StringToNumber :: "string \<Rightarrow> jsnum" where
  "example_StringToNumber s =
     (let t = trim s in
      if t = [] then Fin 0
      else if list_all isDigit t then Fin (of_nat (parseInt t))
      else if hd t = CHR ''-'' \<and> tl t \<noteq> [] \<and> list_all isDigit (tl t)
      then Fin (- of_nat (parseInt (tl t)))
      else NaN)"

fun example_NumberToString :: "jsnum \<Rightarrow> string" where
  "example_NumberToString NaN = ''NaN''"
| "example_NumberToString PosInf = ''Infinity''"
| "example_NumberToString NegInf = ''-Infinity''"
| "example_NumberToString (Fin r) =
     (case quotient_of r of
        (p, q) \<Rightarrow>
          (if p < 0 then ''-'' else []) @ decimal (nat \<bar>p\<bar>) @
          (if q = 1 then [] else ''/'' @ decimal (nat q)))"

definition hex_digit :: "nat \<Rightarrow> char" where
  "hex_digit n = (if n < 10 then char_of (48 + n) else char_of (87 + n))"

definition quote_char :: "char \<Rightarrow> string" where
  "quote_char c =
     (if c = CHR 0x22 then [CHR 0x5C, CHR 0x22]
      else if c = CHR 0x5C then [CHR 0x5C, CHR 0x5C]
      else if c = CHR 0x08 then [CHR 0x5C, CHR ''b'']
      else if c = CHR 0x09 then [CHR 0x5C, CHR ''t'']
      else if c = CHR 0x0A then [CHR 0x5C, CHR ''n'']
      else if c = CHR 0x0C then [CHR 0x5C, CHR ''f'']
      else if c = CHR 0x0D then [CHR 0x5C, CHR ''r'']
      else if (of_char c :: nat) < 32
      then [CHR 0x5C, CHR ''u'', CHR ''0'', CHR ''0'', hex_digit (of_char c div 16),
            hex_digit (of_char c mod 16)]
      else [c])"

definition quote :: "string \<Rightarrow> string" where
  "quote s = [CHR 0x22] @ concat (map quote_char s) @ [CHR 0x22]"

fun stringify :: "string \<Rightarrow> jsval \<Rightarrow> string"
  and stringify_elements :: "string \<Rightarrow> jsval list \<Rightarrow> string"
  and stringify_properties :: "string \<Rightarrow> (string \<times> jsval) list \<Rightarrow> string" where
  "stringify ind JUndefined = ''null''"
| "stringify ind JNull = ''null''"
| "stringify ind (JBool b) = (if b then ''true'' else ''false'')"
| "stringify ind (JNum n) = (case n of Fin r \<Rightarrow> example_NumberToString n | _ \<Rightarrow> ''null'')"
| "stringify ind (JStr s) = quote s"
| "stringify ind (JArr xs) =
     (if xs = [] then ''[]''
      else ''['' @ [CHR 0x0A] @ stringify_elements (ind @ ''  '') xs @ [CHR 0x0A] @ ind @ '']'')"
| "stringify ind (JObj kvs) =
     (if kvs = [] then ''{}''
      else ''{'' @ [CHR 0x0A] @ stringify_properties (ind @ ''  '') kvs @ [CHR 0x0A] @ ind @ ''}'')"
| "stringify_elements ind [] = []"
| "stringify_elements ind (x # xs) =
     ind @ stringify ind x @
     (if xs = [] then [] else '','' @ [CHR 0x0A] @ stringify_elements ind xs)"
| "stringify_properties ind [] = []"
| "stringify_properties ind ((k, v) # kvs) =
     ind @ quote k @ '': '' @ stringify ind v @
     (if kvs = [] then [] else '','' @ [CHR 0x0A] @ stringify_properties ind kvs)"

definition example_runtime :: runtime where
  "example_runtime =
     \<lparr>StringToNumber = example_StringToNumber, NumberToString = example_NumberToString,
      JSON_stringify = stringify []\<rparr>"

subsection \<open>Example requests\<close>

definition strength_args :: "jsval \<Rightarrow> jsval" where
  "strength_args v = JObj [(''prompt'', JStr ''a cat''), (''image_prompt_strength'', v)]"

definition tolerance_args :: "jsval \<Rightarrow> jsval" where
  "tolerance_args v = JObj [(''prompt'', JStr ''a cat''), (''safety_tolerance'', v)]"

definition format_args :: "jsval \<Rightarrow> jsval" where
  "format_args v = JObj [(''prompt'', JStr ''a cat''), (''response_format'', v)]"

definition cat_args :: jsval where
  "cat_args = JObj [(''prompt'', JStr ''a cat'')]"

text \<open>A world whose upstream call returns \<open>data\<close>, and one whose call fails.\<close>

definition answering :: "jsval \<Rightarrow> string \<Rightarrow> environment" where
  "answering data t = \<lparr>post = (\<lambda>path formData. Inr data), now = t\<rparr>"

definition failing :: "js_error \<Rightarrow> string \<Rightarrow> environment" where
  "failing error t = \<lparr>post = (\<lambda>path formData. Inl error), now = t\<rparr>"

definition image_at :: "string \<Rightarrow> jsval" where
  "image_at u = JObj [(''url'', JStr u)]"

definition generation :: "string \<Rightarrow> ImageGeneration" where
  "generation name =
     \<lparr>prompt = JStr name, response = image_at name, timestamp = ''2025-01-01T00:00:00.000Z''\<rparr>"

definition generate :: "string \<Rightarrow> environment \<times> request" where
  "generate name =
     (answering (image_at name) ''2025-01-01T00:00:00.000Z'',
      CallToolRequest ''generate_image'' (JObj [(''prompt'', JStr name)]))"

definition three_cached :: FluxImageServer where
  "three_cached =
     \<lparr>recentImageGenerations = [generation ''third'', generation ''second'', generation ''first''],
      posted = []\<rparr>"

definition five_cached :: FluxImageServer where
  "five_cached =
     \<lparr>recentImageGenerations =
        [generation ''fifth'', generation ''fourth'', generation ''third'', generation ''second'',
         generation ''first''],
      posted = []\<rparr>"

text \<open>
  A run with six successful generations, one failed upstream call and one read in
  between.
\<close>

definition busy_run :: "(environment \<times> request) list" where
  "busy_run =
     [generate ''one'', generate ''two'',
      (failing (AxiosError None ''Network Error'') ''2025-01-01T00:00:00.000Z'',
       CallToolRequest ''generate_image'' cat_args),
      generate ''three'',
      (answering JNull ''2025-01-01T00:00:00.000Z'', ReadResourceRequest ''ohmygpt://images/0''),
      generate ''four'', generate ''five'', generate ''six'']"

definition empty_image_prompt_args :: jsval where
  "empty_image_prompt_args = JObj [(''prompt'', JStr ''a cat''), (''image_prompt'', JStr [])]"

definition null_seed_args :: jsval where
  "null_seed_args = JObj [(''prompt'', JStr ''a cat''), (''seed'', JNull)]"

definition full_args :: jsval where
  "full_args =
     JObj [(''prompt'', JStr ''a cat''),
           (''image_prompt'', JStr ''https://example.com/cat.png''),
           (''image_prompt_strength'', JNum (Fin 1)),
           (''aspect_ratio'', JStr ''16:9''),
           (''safety_tolerance'', JNum (Fin 3)),
           (''seed'', JNum (Fin 42)),
           (''output_format'', JStr ''png''),
           (''raw'', JBool True),
           (''response_format'', JStr ''url'')]"

text \<open>
  A parsed JSON object whose own property \<^verbatim>\<open>toString\<close> shadows the inherited method:
  it has neither a string form nor a number, and an upstream error whose body carries it
  as the message.
\<close>

definition shadowing_value :: jsval where
  "shadowing_value = JObj [(''toString'', JNum (Fin 1))]"

definition unprintable_message_error :: js_error where
  "unprintable_message_error =
     AxiosError (Some (JObj [(''message'', shadowing_value)]))
       ''Request failed with status code 400''"

definition shadowing_args :: jsval where
  "shadowing_args =
     JObj [(''prompt'', JStr ''a cat''), (''seed'', JObj [(''toString'', JNum (Fin 1))])]"

section \<open>Properties of the validator\<close>

lemmas validator_defs =
  isValidImageGenerationArgs_def check_args_def check_prompt_def check_image_prompt_def
  check_image_prompt_strength_def check_aspect_ratio_def check_safety_tolerance_def
  check_seed_def check_output_format_def check_raw_def check_response_format_def
  validRatios_def trim_def isWhiteSpace_def

lemma example_runtime_simps [simp]:
  "StringToNumber example_runtime = example_StringToNumber"
  "NumberToString example_runtime = example_NumberToString"
  "JSON_stringify example_runtime = stringify []"
  by (simp_all add: example_runtime_def)

lemma and_then_True: "and_then a b = Inr True \<longleftrightarrow> a = Inr True \<and> b = Inr True"
  by (auto simp: and_then_def split: sum.splits)

lemma and_then_simps [simp]:
  "and_then (Inr True) b = b"
  "and_then (Inr False) b = Inr False"
  "and_then (Inl e) b = Inl e"
  by (simp_all add: and_then_def)

lemma and_then_Inr_True_right [simp]: "and_then a (Inr True) = a"
  by (cases a) (auto simp: and_then_def)

lemma then_do_simps [simp]:
  "then_do (Inl e) f = Inl e"
  "then_do (Inr x) f = f x"
  by (simp_all add: then_do_def)

lemma map_of_filter_key:
  "map_of (filter (\<lambda>(k', v). k' \<noteq> k) kvs) k' = (if k' = k then None else map_of kvs k')"
  by (induction kvs) auto

lemma get_prop_without:
  "get_prop (without k args) k' = (if k' = k then JUndefined else get_prop args k')"
  by (cases args) (simp_all add: map_of_filter_key)

lemma typeof_without [simp]: "typeof (without k args) = typeof args"
  by (cases args) simp_all

lemma ToBoolean_without [simp]: "ToBoolean (without k args) = ToBoolean args"
  by (cases args) simp_all

text \<open>A string trims to nothing exactly when it is white space throughout.\<close>

lemma trim_Nil_iff: "trim s = [] \<longleftrightarrow> list_all isWhiteSpace s"
proof
  assume "trim s = []"
  then have all: "\<forall>c \<in> set (dropWhile isWhiteSpace s). isWhiteSpace c"
    by (simp add: trim_def dropWhile_eq_Nil_conv)
  have "dropWhile isWhiteSpace s = []"
  proof (rule ccontr)
    assume ne: "dropWhile isWhiteSpace s \<noteq> []"
    then have "\<not> isWhiteSpace (hd (dropWhile isWhiteSpace s))"
      by (rule hd_dropWhile)
    moreover from ne have "hd (dropWhile isWhiteSpace s) \<in> set (dropWhile isWhiteSpace s)"
      by simp
    ultimately show False using all by blast
  qed
  then show "list_all isWhiteSpace s"
    by (simp add: dropWhile_eq_Nil_conv list_all_iff)
next
  assume "list_all isWhiteSpace s"
  then have empty: "dropWhile isWhiteSpace s = []"
    by (simp add: dropWhile_eq_Nil_conv list_all_iff)
  show "trim s = []" unfolding trim_def empty by simp
qed

text \<open>The validator returns \<^verbatim>\<open>true\<close> exactly when every statement falls through.\<close>

lemma isValid_steps:
  "isValidImageGenerationArgs rt args = Inr True \<longleftrightarrow>
     check_args args \<and> check_prompt args \<and> check_image_prompt args \<and>
     check_image_prompt_strength rt args = Inr True \<and> check_aspect_ratio args \<and>
     check_safety_tolerance rt args = Inr True \<and> check_seed rt args = Inr True \<and>
     check_output_format args \<and> check_raw args \<and> check_response_format args"
  by (simp add: isValidImageGenerationArgs_def and_then_True)

text \<open>
  Claim C5. The validator returns \<^verbatim>\<open>false\<close> for every input that is not a non-null
  object (its \<^verbatim>\<open>typeof\<close> is not \<^verbatim>\<open>object\<close>, or it is \<^verbatim>\<open>null\<close>), that has no
  \<^verbatim>\<open>prompt\<close>, whose \<^verbatim>\<open>prompt\<close> is not a string, or whose \<^verbatim>\<open>prompt\<close> is empty
  after trimming, that is, empty or white space only. It never accepts such an input,
  whatever the other fields are.
\<close>

theorem validator_rejects_bad_prompt:
  assumes "typeof args \<noteq> ''object'' \<or> args = JNull \<or>
           get_prop args ''prompt'' = JUndefined \<or>
           typeof (get_prop args ''prompt'') \<noteq> ''string'' \<or>
           (\<exists>s. get_prop args ''prompt'' = JStr s \<and> (trim s = [] \<or> list_all isWhiteSpace s))"
  shows "isValidImageGenerationArgs rt args = Inr False"
proof (cases "check_args args")
  case False
  then show ?thesis by (simp add: isValidImageGenerationArgs_def)
next
  case True
  then have obj: "typeof args = ''object''" "args \<noteq> JNull"
    by (auto simp: check_args_def)
  with assms have "\<not> check_prompt args"
    by (auto simp: check_prompt_def trim_Nil_iff)
  with True show ?thesis by (simp add: isValidImageGenerationArgs_def)
qed

theorem validator_rejects_bad_prompt_witness:
  "typeof (JStr ''a cat'') \<noteq> ''object'' \<and>
   get_prop (JObj [(''seed'', JNum (Fin 7))]) ''prompt'' = JUndefined \<and>
   typeof (get_prop (JObj [(''prompt'', JNum (Fin 7))]) ''prompt'') \<noteq> ''string'' \<and>
   trim ''   '' = [] \<and>
   isValidImageGenerationArgs example_runtime JNull = Inr False \<and>
   isValidImageGenerationArgs example_runtime (JStr ''a cat'') = Inr False \<and>
   isValidImageGenerationArgs example_runtime (JObj [(''seed'', JNum (Fin 7))]) = Inr False \<and>
   isValidImageGenerationArgs example_runtime (JObj [(''prompt'', JNum (Fin 7))]) = Inr False \<and>
   isValidImageGenerationArgs example_runtime (JObj [(''prompt'', JStr [])]) = Inr False \<and>
   isValidImageGenerationArgs example_runtime (JObj [(''prompt'', JStr ''   '')]) = Inr False"
  using validator_rejects_bad_prompt [of JNull example_runtime]
    validator_rejects_bad_prompt [of "JStr ''a cat''" example_runtime]
    validator_rejects_bad_prompt [of "JObj [(''seed'', JNum (Fin 7))]" example_runtime]
    validator_rejects_bad_prompt [of "JObj [(''prompt'', JNum (Fin 7))]" example_runtime]
    validator_rejects_bad_prompt [of "JObj [(''prompt'', JStr [])]" example_runtime]
    validator_rejects_bad_prompt [of "JObj [(''prompt'', JStr ''   '')]" example_runtime]
  by (simp add: trim_def isWhiteSpace_def)

text \<open>
  Leaving out a property does not change what the statements about the other
  properties find.
\<close>

lemma checks_without:
  "check_args (without k args) = check_args args"
  "k \<noteq> ''prompt'' \<Longrightarrow> check_prompt (without k args) = check_prompt args"
  "k \<noteq> ''image_prompt'' \<Longrightarrow> check_image_prompt (without k args) = check_image_prompt args"
  "k \<noteq> ''image_prompt_strength'' \<Longrightarrow>
     check_image_prompt_strength rt (without k args) = check_image_prompt_strength rt args"
  "k \<noteq> ''aspect_ratio'' \<Longrightarrow> check_aspect_ratio (without k args) = check_aspect_ratio args"
  "k \<noteq> ''safety_tolerance'' \<Longrightarrow>
     check_safety_tolerance rt (without k args) = check_safety_tolerance rt args"
  "k \<noteq> ''seed'' \<Longrightarrow> check_seed rt (without k args) = check_seed rt args"
  "k \<noteq> ''output_format'' \<Longrightarrow> check_output_format (without k args) = check_output_format args"
  "k \<noteq> ''raw'' \<Longrightarrow> check_raw (without k args) = check_raw args"
  "k \<noteq> ''response_format'' \<Longrightarrow>
     check_response_format (without k args) = check_response_format args"
  by (simp_all add: check_args_def check_prompt_def check_image_prompt_def
      check_image_prompt_strength_def check_aspect_ratio_def check_safety_tolerance_def
      check_seed_def check_output_format_def check_raw_def check_response_format_def
      get_prop_without)

lemma only_image_prompt_strength:
  assumes "isValidImageGenerationArgs rt (without ''image_prompt_strength'' args) = Inr True"
  shows "isValidImageGenerationArgs rt args = check_image_prompt_strength rt args"
proof -
  from assms have "check_args args" "check_prompt args" "check_image_prompt args"
    "check_aspect_ratio args" "check_safety_tolerance rt args = Inr True"
    "check_seed rt args = Inr True" "check_output_format args" "check_raw args"
    "check_response_format args"
    by (simp_all add: isValid_steps checks_without)
  then show ?thesis by (simp add: isValidImageGenerationArgs_def)
qed

lemma only_safety_tolerance:
  assumes "isValidImageGenerationArgs rt (without ''safety_tolerance'' args) = Inr True"
  shows "isValidImageGenerationArgs rt args = check_safety_tolerance rt args"
proof -
  from assms have "check_args args" "check_prompt args" "check_image_prompt args"
    "check_image_prompt_strength rt args = Inr True" "check_aspect_ratio args"
    "check_seed rt args = Inr True" "check_output_format args" "check_raw args"
    "check_response_format args"
    by (simp_all add: isValid_steps checks_without)
  then show ?thesis by (simp add: isValidImageGenerationArgs_def)
qed

lemma only_response_format:
  assumes "isValidImageGenerationArgs rt (without ''response_format'' args) = Inr True"
  shows "isValidImageGenerationArgs rt args = Inr (check_response_format args)"
proof -
  from assms have "check_args args" "check_prompt args" "check_image_prompt args"
    "check_image_prompt_strength rt args = Inr True" "check_aspect_ratio args"
    "check_safety_tolerance rt args = Inr True" "check_seed rt args = Inr True"
    "check_output_format args" "check_raw args"
    by (simp_all add: isValid_steps checks_without)
  then show ?thesis by (simp add: isValidImageGenerationArgs_def)
qed

text \<open>
  Claim C6. The claim has the validator reject every supplied \<^verbatim>\<open>image_prompt_strength\<close>
  that is not coercible to a number. The code does not, on this input: the request with
  the prompt \<^verbatim>\<open>a cat\<close> and the object \<^verbatim>\<open>{"toString": 1}\<close> as
  \<^verbatim>\<open>image_prompt_strength\<close> satisfies every other rule and supplies the field, yet
  \<^verbatim>\<open>Number(...)\<close> throws a \<^verbatim>\<open>TypeError\<close> on it, the validator throws instead of
  returning \<^verbatim>\<open>false\<close>, and the handler passes the \<^verbatim>\<open>TypeError\<close> on instead of
  the \<^verbatim>\<open>InvalidParams\<close> error.
\<close>

theorem image_prompt_strength_conversion_throws:
  "isValidImageGenerationArgs rt
     (without ''image_prompt_strength'' (strength_args shadowing_value)) = Inr True \<and>
   get_prop (strength_args shadowing_value) ''image_prompt_strength'' = shadowing_value \<and>
   shadowing_value \<noteq> JUndefined \<and>
   Number rt shadowing_value = Inl TypeError \<and>
   isValidImageGenerationArgs rt (strength_args shadowing_value) = Inl TypeError \<and>
   handleGenerateImageTool rt env (strength_args shadowing_value) srv = (Inl TypeError, srv)"
  by (simp add: strength_args_def shadowing_value_def validator_defs
      handleGenerateImageTool_def)

text \<open>
  What holds of the rule for \<^verbatim>\<open>image_prompt_strength\<close>: take an input that satisfies
  every other rule (the validator accepts it with \<^verbatim>\<open>image_prompt_strength\<close> left out)
  and supplies the field with the value \<open>v\<close>, and let \<^verbatim>\<open>Number(v)\<close> return. When
  the number is \<^verbatim>\<open>NaN\<close>, below 0 or above 1, the validator returns \<^verbatim>\<open>false\<close>;
  when it is a number from 0 to 1, the bounds included, the validator returns
  \<^verbatim>\<open>true\<close>; in particular it accepts the numbers 0 and 1.
\<close>

lemma validator_image_prompt_strength_range:
  assumes others: "isValidImageGenerationArgs rt (without ''image_prompt_strength'' args) = Inr True"
    and v: "get_prop args ''image_prompt_strength'' = v" "v \<noteq> JUndefined"
  shows "(Number rt v = Inr n \<and> (isNaN n \<or> js_less n (Fin 0) \<or> js_less (Fin 1) n) \<longrightarrow>
            isValidImageGenerationArgs rt args = Inr False) \<and>
         (Number rt v = Inr (Fin r) \<and> 0 \<le> r \<and> r \<le> 1 \<longrightarrow>
            isValidImageGenerationArgs rt args = Inr True) \<and>
         (v = JNum (Fin 0) \<or> v = JNum (Fin 1) \<longrightarrow>
            isValidImageGenerationArgs rt args = Inr True)"
  using v by (auto simp: only_image_prompt_strength [OF others] check_image_prompt_strength_def)

lemma validator_image_prompt_strength_range_examples:
  "isValidImageGenerationArgs example_runtime
     (without ''image_prompt_strength'' (strength_args JNull)) = Inr True \<and>
   isValidImageGenerationArgs example_runtime
     (strength_args (JNum (Fin (- (3602879701896397 / 36028797018963968))))) = Inr False \<and>
   isValidImageGenerationArgs example_runtime (strength_args (JNum (Fin (3 / 2)))) = Inr False \<and>
   isValidImageGenerationArgs example_runtime (strength_args (JStr ''abc'')) = Inr False \<and>
   isValidImageGenerationArgs example_runtime (strength_args (JNum (Fin 0))) = Inr True \<and>
   isValidImageGenerationArgs example_runtime (strength_args (JNum (Fin 1))) = Inr True"
  using
    validator_image_prompt_strength_range [of example_runtime
      "strength_args (JNum (Fin (- (3602879701896397 / 36028797018963968))))"
      "JNum (Fin (- (3602879701896397 / 36028797018963968)))"
      "Fin (- (3602879701896397 / 36028797018963968))" 0]
    validator_image_prompt_strength_range [of example_runtime
      "strength_args (JNum (Fin (3 / 2)))" "JNum (Fin (3 / 2))" "Fin (3 / 2)" 0]
    validator_image_prompt_strength_range [of example_runtime
      "strength_args (JStr ''abc'')" "JStr ''abc''" NaN 0]
    validator_image_prompt_strength_range [of example_runtime
      "strength_args (JNum (Fin 0))" "JNum (Fin 0)" NaN 0]
    validator_image_prompt_strength_range [of example_runtime
      "strength_args (JNum (Fin 1))" "JNum (Fin 1)" NaN 1]
  by (simp add: strength_args_def validator_defs and_then_def example_StringToNumber_def
      isDigit_def)

text \<open>
  Claim C7. The claim has the validator reject every supplied \<^verbatim>\<open>safety_tolerance\<close>
  that is not coercible to an integer. The code does not, on these inputs: the request
  with the prompt \<^verbatim>\<open>a cat\<close> and the object \<^verbatim>\<open>{"toString": 1}\<close>, or the array
  \<^verbatim>\<open>[{"toString": 1}]\<close>, as \<^verbatim>\<open>safety_tolerance\<close> satisfies every other rule and
  supplies the field, yet \<^verbatim>\<open>Number(...)\<close> throws a \<^verbatim>\<open>TypeError\<close> on it, the
  validator throws instead of returning \<^verbatim>\<open>false\<close>, and the handler passes the
  \<^verbatim>\<open>TypeError\<close> on instead of the \<^verbatim>\<open>InvalidParams\<close> error.
\<close>

theorem safety_tolerance_conversion_throws:
  "isValidImageGenerationArgs rt
     (without ''safety_tolerance'' (tolerance_args shadowing_value)) = Inr True \<and>
   get_prop (tolerance_args shadowing_value) ''safety_tolerance'' = shadowing_value \<and>
   shadowing_value \<noteq> JUndefined \<and>
   Number rt shadowing_value = Inl TypeError \<and>
   isValidImageGenerationArgs rt (tolerance_args shadowing_value) = Inl TypeError \<and>
   handleGenerateImageTool rt env (tolerance_args shadowing_value) srv = (Inl TypeError, srv) \<and>
   Number rt (JArr [shadowing_value]) = Inl TypeError \<and>
   isValidImageGenerationArgs rt (tolerance_args (JArr [shadowing_value])) = Inl TypeError"
  by (simp add: tolerance_args_def shadowing_value_def validator_defs
      handleGenerateImageTool_def)

text \<open>
  What holds of the rule for \<^verbatim>\<open>safety_tolerance\<close>: take an input that satisfies every
  other rule and supplies the field with the value \<open>v\<close>, and let \<^verbatim>\<open>Number(v)\<close>
  return. When the number is not an integer, or is below 1 or above 6, the validator
  returns \<^verbatim>\<open>false\<close>; when it is an integer from 1 to 6 the validator returns
  \<^verbatim>\<open>true\<close>; in particular it accepts 1 and 6.
\<close>

lemma validator_safety_tolerance_range:
  assumes others: "isValidImageGenerationArgs rt (without ''safety_tolerance'' args) = Inr True"
    and v: "get_prop args ''safety_tolerance'' = v" "v \<noteq> JUndefined"
  shows "(Number rt v = Inr n \<and>
            (\<not> Number_isInteger n \<or> js_less n (Fin 1) \<or> js_less (Fin 6) n) \<longrightarrow>
            isValidImageGenerationArgs rt args = Inr False) \<and>
         (Number rt v = Inr (Fin (of_int i)) \<and> 1 \<le> i \<and> i \<le> 6 \<longrightarrow>
            isValidImageGenerationArgs rt args = Inr True) \<and>
         (v = JNum (Fin 1) \<or> v = JNum (Fin 6) \<longrightarrow>
            isValidImageGenerationArgs rt args = Inr True)"
  using v by (auto simp: only_safety_tolerance [OF others] check_safety_tolerance_def)

lemma floor_five_halves: "\<lfloor>5 / 2 :: rat\<rfloor> = 2"
  by (simp add: floor_eq_iff)

lemma validator_safety_tolerance_range_examples:
  "isValidImageGenerationArgs example_runtime
     (without ''safety_tolerance'' (tolerance_args JNull)) = Inr True \<and>
   isValidImageGenerationArgs example_runtime (tolerance_args (JNum (Fin 0))) = Inr False \<and>
   isValidImageGenerationArgs example_runtime (tolerance_args (JNum (Fin 7))) = Inr False \<and>
   isValidImageGenerationArgs example_runtime (tolerance_args (JNum (Fin (5 / 2)))) = Inr False \<and>
   isValidImageGenerationArgs example_runtime (tolerance_args (JStr ''high'')) = Inr False \<and>
   isValidImageGenerationArgs example_runtime (tolerance_args (JStr ''3'')) = Inr True \<and>
   isValidImageGenerationArgs example_runtime (tolerance_args (JNum (Fin 1))) = Inr True \<and>
   isValidImageGenerationArgs example_runtime (tolerance_args (JNum (Fin 6))) = Inr True"
  using
    validator_safety_tolerance_range [of example_runtime
      "tolerance_args (JNum (Fin 0))" "JNum (Fin 0)" "Fin 0" 1]
    validator_safety_tolerance_range [of example_runtime
      "tolerance_args (JNum (Fin 7))" "JNum (Fin 7)" "Fin 7" 1]
    validator_safety_tolerance_range [of example_runtime
      "tolerance_args (JNum (Fin (5 / 2)))" "JNum (Fin (5 / 2))" "Fin (5 / 2)" 1]
    validator_safety_tolerance_range [of example_runtime
      "tolerance_args (JStr ''high'')" "JStr ''high''" NaN 1]
    validator_safety_tolerance_range [of example_runtime
      "tolerance_args (JStr ''3'')" "JStr ''3''" NaN 3]
    validator_safety_tolerance_range [of example_runtime
      "tolerance_args (JNum (Fin 1))" "JNum (Fin 1)" NaN 1]
    validator_safety_tolerance_range [of example_runtime
      "tolerance_args (JNum (Fin 6))" "JNum (Fin 6)" NaN 6]
  by (simp add: tolerance_args_def validator_defs and_then_def example_StringToNumber_def
      isDigit_def parseInt_def digit_value_def floor_five_halves)

text \<open>
  Claim C9. Take an input that satisfies every other rule and supplies
  \<^verbatim>\<open>response_format\<close> with the value \<open>v\<close>. The validator accepts it exactly when
  \<open>v\<close> is the string \<^verbatim>\<open>url\<close> or the string \<^verbatim>\<open>b64_json\<close>, while the schema the
  server advertises for the tool lists only \<^verbatim>\<open>url\<close> for this property.
\<close>

theorem validator_response_format_members:
  assumes others: "isValidImageGenerationArgs rt (without ''response_format'' args) = Inr True"
    and v: "get_prop args ''response_format'' = v" "v \<noteq> JUndefined"
  shows "isValidImageGenerationArgs rt args = Inr (v = JStr ''url'' \<or> v = JStr ''b64_json'') \<and>
         map_option enum_values (map_of inputSchema_properties ''response_format'') =
           Some (Some [''url''])"
proof -
  have "check_response_format args \<longleftrightarrow> v = JStr ''url'' \<or> v = JStr ''b64_json''"
    using v by (cases v) (auto simp: check_response_format_def)
  moreover have "map_option enum_values (map_of inputSchema_properties ''response_format'')
      = Some (Some [''url''])"
    by (simp add: inputSchema_properties_def)
  ultimately show ?thesis by (simp add: only_response_format [OF others])
qed

theorem validator_response_format_members_witness:
  "isValidImageGenerationArgs example_runtime
     (without ''response_format'' (format_args JNull)) = Inr True \<and>
   isValidImageGenerationArgs example_runtime (format_args (JStr ''b64_json'')) = Inr True \<and>
   isValidImageGenerationArgs example_runtime (format_args (JStr ''url'')) = Inr True \<and>
   isValidImageGenerationArgs example_runtime (format_args (JStr ''png'')) = Inr False \<and>
   isValidImageGenerationArgs example_runtime (format_args JNull) = Inr False"
  using
    validator_response_format_members [of example_runtime
      "format_args (JStr ''b64_json'')" "JStr ''b64_json''"]
    validator_response_format_members [of example_runtime
      "format_args (JStr ''url'')" "JStr ''url''"]
    validator_response_format_members [of example_runtime
      "format_args (JStr ''png'')" "JStr ''png''"]
    validator_response_format_members [of example_runtime "format_args JNull" JNull]
  by (simp add: format_args_def validator_defs and_then_def)

section \<open>Properties of the generate_image handler\<close>

lemma handle_invalid:
  "isValidImageGenerationArgs rt params = Inr False \<Longrightarrow>
   handleGenerateImageTool rt env params srv =
     (Inl (McpError InvalidParams ''Invalid image generation arguments''), srv)"
  by (simp add: handleGenerateImageTool_def)

lemma handle_failure:
  "isValidImageGenerationArgs rt params = Inr True \<Longrightarrow>
   buildFormData rt params = Inr formData \<Longrightarrow>
   post env FLUX_IMAGE formData = Inl error \<Longrightarrow>
   handleGenerateImageTool rt env params srv =
     (catch_block rt error, srv\<lparr>posted := posted srv @ [(FLUX_IMAGE, formData)]\<rparr>)"
  by (simp add: handleGenerateImageTool_def)

lemma handle_success:
  "isValidImageGenerationArgs rt params = Inr True \<Longrightarrow>
   buildFormData rt params = Inr formData \<Longrightarrow>
   post env FLUX_IMAGE formData = Inr data \<Longrightarrow>
   handleGenerateImageTool rt env params srv =
     (Inr \<lparr>content = [Text (JSON_stringify rt data)], isError = None\<rparr>,
      srv\<lparr>posted := posted srv @ [(FLUX_IMAGE, formData)],
          recentImageGenerations :=
            (if length (recentImageGenerations srv) < MAX_CACHED_GENERATIONS
             then \<lparr>prompt = get_prop params ''prompt'', response = data, timestamp = now env\<rparr>
                  # recentImageGenerations srv
             else \<lparr>prompt = get_prop params ''prompt'', response = data, timestamp = now env\<rparr>
                  # butlast (recentImageGenerations srv))\<rparr>)"
  by (auto simp: handleGenerateImageTool_def Let_def MAX_CACHED_GENERATIONS_def)

lemma catch_block_isError:
  "catch_block rt error = Inr r \<Longrightarrow> isError r = Some True"
  by (cases error) (auto simp: then_do_def split: sum.splits)

text \<open>The five ways through the handler.\<close>

lemma handle_cases:
  obtains
    (threw) e where "isValidImageGenerationArgs rt params = Inl e"
      "handleGenerateImageTool rt env params srv = (Inl e, srv)"
  | (invalid) "isValidImageGenerationArgs rt params = Inr False"
      "handleGenerateImageTool rt env params srv =
         (Inl (McpError InvalidParams ''Invalid image generation arguments''), srv)"
  | (unbuilt) error where "isValidImageGenerationArgs rt params = Inr True"
      "buildFormData rt params = Inl error"
      "handleGenerateImageTool rt env params srv = (catch_block rt error, srv)"
  | (failed) formData error where "isValidImageGenerationArgs rt params = Inr True"
      "buildFormData rt params = Inr formData" "post env FLUX_IMAGE formData = Inl error"
      "handleGenerateImageTool rt env params srv =
         (catch_block rt error, srv\<lparr>posted := posted srv @ [(FLUX_IMAGE, formData)]\<rparr>)"
  | (succeeded) formData data where "isValidImageGenerationArgs rt params = Inr True"
      "buildFormData rt params = Inr formData" "post env FLUX_IMAGE formData = Inr data"
proof (cases "isValidImageGenerationArgs rt params")
  case (Inl e)
  then show ?thesis using threw by (simp add: handleGenerateImageTool_def)
next
  case (Inr valid)
  show ?thesis
  proof (cases valid)
    case False
    with Inr show ?thesis using invalid handle_invalid by simp
  next
    case True
    with Inr have v: "isValidImageGenerationArgs rt params = Inr True" by simp
    show ?thesis
    proof (cases "buildFormData rt params")
      case (Inl error)
      with v show ?thesis using unbuilt by (simp add: handleGenerateImageTool_def)
    next
      case b: (Inr formData)
      show ?thesis
      proof (cases "post env FLUX_IMAGE formData")
        case (Inl error)
        with v b show ?thesis using failed handle_failure by simp
      next
        case (Inr data)
        with v b show ?thesis using succeeded by simp
      qed
    qed
  qed
qed

text \<open>
  A value whose conversion to a number throws makes the validator throw: it returns
  neither \<^verbatim>\<open>true\<close> nor \<^verbatim>\<open>false\<close>, and the handler lets the error pass with
  the server as it was.
\<close>

lemma shadowed_toString_throws:
  "isValidImageGenerationArgs rt shadowing_args = Inl TypeError \<and>
   handleGenerateImageTool rt env shadowing_args srv = (Inl TypeError, srv)"
  by (simp add: shadowing_args_def validator_defs handleGenerateImageTool_def)

lemma example_worlds [simp]:
  "post (answering data t) path formData = Inr data"
  "now (answering data t) = t"
  "post (failing error t) path formData = Inl error"
  "now (failing error t) = t"
  by (simp_all add: answering_def failing_def)

lemma cat_args_valid: "isValidImageGenerationArgs rt (JObj [(''prompt'', JStr ''a cat'')]) = Inr True"
  by (simp add: validator_defs)

lemma cat_args_form:
  "buildFormData rt (JObj [(''prompt'', JStr ''a cat'')]) =
     Inr [(''model'', ''flux-1.1-pro-ultra''), (''prompt'', ''a cat'')]"
  by (simp add: buildFormData_def formData_append_def DEFAULT_PARAMS_def)

text \<open>
  Claim C8. When the validator returns \<^verbatim>\<open>false\<close> for the arguments of a tool call,
  the handler throws the protocol error \<^verbatim>\<open>InvalidParams\<close>, and so does the dispatch
  of the \<^verbatim>\<open>generate_image\<close> call. The server is left as it was: nothing was handed to
  the HTTP client and the cache is the same.
\<close>

theorem invalid_arguments_no_upstream_call:
  assumes "isValidImageGenerationArgs rt params = Inr False"
  shows "handleGenerateImageTool rt env params srv =
           (Inl (McpError InvalidParams ''Invalid image generation arguments''), srv) \<and>
         handleRequest rt env (CallToolRequest ''generate_image'' params) srv =
           (Inl (McpError InvalidParams ''Invalid image generation arguments''), srv) \<and>
         posted (snd (handleGenerateImageTool rt env params srv)) = posted srv \<and>
         recentImageGenerations (snd (handleGenerateImageTool rt env params srv)) =
           recentImageGenerations srv"
  by (simp add: handle_invalid [OF assms] lift_reply_def)

theorem invalid_arguments_no_upstream_call_witness:
  "isValidImageGenerationArgs example_runtime (tolerance_args (JNum (Fin 7))) = Inr False \<and>
   handleRequest example_runtime (answering (image_at ''x'') ''now'')
     (CallToolRequest ''generate_image'' (tolerance_args (JNum (Fin 7)))) three_cached =
     (Inl (McpError InvalidParams ''Invalid image generation arguments''), three_cached)"
  using invalid_arguments_no_upstream_call [of example_runtime "tolerance_args (JNum (Fin 7))"
      "answering (image_at ''x'') ''now''" three_cached]
  by (simp add: tolerance_args_def validator_defs and_then_def lift_reply_def)

text \<open>
  Claim C10. When the arguments are valid and the upstream call fails, the handler
  leaves the cache exactly as it was, whether the \<^verbatim>\<open>catch\<close> block turns the failure
  into a result or throws it again. More generally, the cache differs after a call only
  when the upstream call returned a response.
\<close>

theorem failed_upstream_leaves_cache:
  "(isValidImageGenerationArgs rt params = Inr True \<and> buildFormData rt params = Inr formData \<and>
    post env FLUX_IMAGE formData = Inl error \<longrightarrow>
      fst (handleGenerateImageTool rt env params srv) = catch_block rt error \<and>
      recentImageGenerations (snd (handleGenerateImageTool rt env params srv)) =
        recentImageGenerations srv) \<and>
   (recentImageGenerations (snd (handleGenerateImageTool rt env params srv)) \<noteq>
      recentImageGenerations srv \<longrightarrow>
      (\<exists>formData data. isValidImageGenerationArgs rt params = Inr True \<and>
         buildFormData rt params = Inr formData \<and> post env FLUX_IMAGE formData = Inr data))"
proof (intro conjI impI)
  assume a: "isValidImageGenerationArgs rt params = Inr True \<and>
    buildFormData rt params = Inr formData \<and> post env FLUX_IMAGE formData = Inl error"
  then show "fst (handleGenerateImageTool rt env params srv) = catch_block rt error"
    by (simp add: handle_failure)
  from a show "recentImageGenerations (snd (handleGenerateImageTool rt env params srv)) =
      recentImageGenerations srv"
    by (simp add: handle_failure)
next
  assume changed: "recentImageGenerations (snd (handleGenerateImageTool rt env params srv)) \<noteq>
      recentImageGenerations srv"
  show "\<exists>formData data. isValidImageGenerationArgs rt params = Inr True \<and>
         buildFormData rt params = Inr formData \<and> post env FLUX_IMAGE formData = Inr data"
    using changed by (cases rule: handle_cases [of rt params env srv]) auto
qed

theorem failed_upstream_leaves_cache_witness:
  "isValidImageGenerationArgs example_runtime cat_args = Inr True \<and>
   buildFormData example_runtime cat_args =
     Inr [(''model'', ''flux-1.1-pro-ultra''), (''prompt'', ''a cat'')] \<and>
   recentImageGenerations (snd (handleGenerateImageTool example_runtime
       (failing (AxiosError None ''Network Error'') ''now'') cat_args three_cached)) =
     recentImageGenerations three_cached \<and>
   recentImageGenerations (snd (handleGenerateImageTool example_runtime
       (failing (OtherError ''boom'') ''now'') cat_args three_cached)) =
     recentImageGenerations three_cached \<and>
   recentImageGenerations (snd (handleGenerateImageTool example_runtime
       (answering (image_at ''fourth'') ''now'') cat_args three_cached)) \<noteq>
     recentImageGenerations three_cached"
  using
    failed_upstream_leaves_cache [of example_runtime cat_args
      "[(''model'', ''flux-1.1-pro-ultra''), (''prompt'', ''a cat'')]"
      "failing (AxiosError None ''Network Error'') ''now''"
      "AxiosError None ''Network Error''" three_cached]
    failed_upstream_leaves_cache [of example_runtime cat_args
      "[(''model'', ''flux-1.1-pro-ultra''), (''prompt'', ''a cat'')]"
      "failing (OtherError ''boom'') ''now''" "OtherError ''boom''" three_cached]
    handle_success [of example_runtime cat_args
      "[(''model'', ''flux-1.1-pro-ultra''), (''prompt'', ''a cat'')]"
      "answering (image_at ''fourth'') ''now''" "image_at ''fourth''" three_cached]
  by (simp add: cat_args_def cat_args_valid cat_args_form three_cached_def
      MAX_CACHED_GENERATIONS_def)

text \<open>
  Claim C3. The claim has every failure of the HTTP client end in a result marked
  \<^verbatim>\<open>isError\<close>. The code does not, on this input: the arguments are valid, the
  upstream call fails with an error of the HTTP client whose body is
  \<^verbatim>\<open>{"message": {"toString": 1}}\<close>, the message is present, and the template literal
  of the \<^verbatim>\<open>catch\<close> block throws a \<^verbatim>\<open>TypeError\<close> on it. The call then returns
  no result, and what it throws is the \<^verbatim>\<open>TypeError\<close>, not the error of the HTTP
  client; the cache is as it was.
\<close>

theorem unprintable_upstream_message_throws:
  "isValidImageGenerationArgs rt cat_args = Inr True \<and>
   buildFormData rt cat_args = Inr [(''model'', ''flux-1.1-pro-ultra''), (''prompt'', ''a cat'')] \<and>
   post (failing unprintable_message_error t) FLUX_IMAGE
     [(''model'', ''flux-1.1-pro-ultra''), (''prompt'', ''a cat'')] =
     Inl unprintable_message_error \<and>
   isAxiosError unprintable_message_error \<and>
   upstream_message (Some (JObj [(''message'', shadowing_value)])) = shadowing_value \<and>
   ToString rt shadowing_value = Inl TypeError \<and>
   fst (handleGenerateImageTool rt (failing unprintable_message_error t) cat_args srv) =
     Inl TypeError \<and>
   recentImageGenerations
     (snd (handleGenerateImageTool rt (failing unprintable_message_error t) cat_args srv)) =
     recentImageGenerations srv"
  by (simp add: cat_args_def cat_args_valid cat_args_form unprintable_message_error_def
      shadowing_value_def optional_get_def nullish_or_def
      handle_failure [OF cat_args_valid cat_args_form])

text \<open>
  What holds of the \<^verbatim>\<open>catch\<close> block: let the arguments be valid and the upstream
  call fail with \<open>error\<close>. If \<open>error\<close> is an error of the HTTP client, the call
  returns a result marked \<^verbatim>\<open>isError\<close> whose text is \<^verbatim>\<open>OhMyGPT API error: \<close>
  followed by the message of the upstream error body when there is one and it has a
  string form \<open>s\<close> (a string is its own string form), and by the message of the error
  itself when the body has none. Any other error is thrown again unchanged.
\<close>

lemma upstream_failure_classified:
  assumes "isValidImageGenerationArgs rt params = Inr True"
    and "buildFormData rt params = Inr formData"
    and "post env FLUX_IMAGE formData = Inl error"
  shows "(error = AxiosError resp m \<and> upstream_message resp = v \<and> v \<noteq> JUndefined \<and>
          v \<noteq> JNull \<and> ToString rt v = Inr s \<longrightarrow>
            fst (handleGenerateImageTool rt env params srv) =
              Inr \<lparr>content = [Text (''OhMyGPT API error: '' @ s)], isError = Some True\<rparr>) \<and>
         (error = AxiosError resp m \<and>
          (upstream_message resp = JUndefined \<or> upstream_message resp = JNull) \<longrightarrow>
            fst (handleGenerateImageTool rt env params srv) =
              Inr \<lparr>content = [Text (''OhMyGPT API error: '' @ m)], isError = Some True\<rparr>) \<and>
         (\<not> isAxiosError error \<longrightarrow>
            fst (handleGenerateImageTool rt env params srv) = Inl error)"
  by (cases error) (auto simp: handle_failure [OF assms] nullish_or_def)

lemma upstream_failure_classified_examples:
  "isValidImageGenerationArgs example_runtime cat_args = Inr True \<and>
   buildFormData example_runtime cat_args =
     Inr [(''model'', ''flux-1.1-pro-ultra''), (''prompt'', ''a cat'')] \<and>
   upstream_message (Some (JObj [(''message'', JStr ''Insufficient balance'')])) =
     JStr ''Insufficient balance'' \<and>
   upstream_message (Some (JStr ''Bad Gateway'')) = JUndefined \<and>
   fst (handleGenerateImageTool example_runtime
     (failing (AxiosError (Some (JObj [(''message'', JStr ''Insufficient balance'')]))
        ''Request failed with status code 402'') ''now'') cat_args three_cached) =
     Inr \<lparr>content = [Text ''OhMyGPT API error: Insufficient balance''], isError = Some True\<rparr> \<and>
   fst (handleGenerateImageTool example_runtime
     (failing (AxiosError (Some (JStr ''Bad Gateway'')) ''Request failed with status code 502'')
        ''now'') cat_args three_cached) =
     Inr \<lparr>content = [Text ''OhMyGPT API error: Request failed with status code 502''],
          isError = Some True\<rparr> \<and>
   fst (handleGenerateImageTool example_runtime
     (failing (AxiosError None ''Network Error'') ''now'') cat_args three_cached) =
     Inr \<lparr>content = [Text ''OhMyGPT API error: Network Error''], isError = Some True\<rparr> \<and>
   fst (handleGenerateImageTool example_runtime
     (failing (OtherError ''boom'') ''now'') cat_args three_cached) = Inl (OtherError ''boom'')"
  using
    upstream_failure_classified [of example_runtime cat_args
      "[(''model'', ''flux-1.1-pro-ultra''), (''prompt'', ''a cat'')]"
      "failing (AxiosError (Some (JObj [(''message'', JStr ''Insufficient balance'')]))
         ''Request failed with status code 402'') ''now''"
      "AxiosError (Some (JObj [(''message'', JStr ''Insufficient balance'')]))
         ''Request failed with status code 402''"
      "Some (JObj [(''message'', JStr ''Insufficient balance'')])"
      "''Request failed with status code 402''" "JStr ''Insufficient balance''"
      "''Insufficient balance''" three_cached]
    upstream_failure_classified [of example_runtime cat_args
      "[(''model'', ''flux-1.1-pro-ultra''), (''prompt'', ''a cat'')]"
      "failing (AxiosError (Some (JStr ''Bad Gateway'')) ''Request failed with status code 502'')
         ''now''"
      "AxiosError (Some (JStr ''Bad Gateway'')) ''Request failed with status code 502''"
      "Some (JStr ''Bad Gateway'')" "''Request failed with status code 502''" JUndefined
      "[]" three_cached]
    upstream_failure_classified [of example_runtime cat_args
      "[(''model'', ''flux-1.1-pro-ultra''), (''prompt'', ''a cat'')]"
      "failing (AxiosError None ''Network Error'') ''now''"
      "AxiosError None ''Network Error''" None "''Network Error''" JUndefined "[]" three_cached]
    upstream_failure_classified [of example_runtime cat_args
      "[(''model'', ''flux-1.1-pro-ultra''), (''prompt'', ''a cat'')]"
      "failing (OtherError ''boom'') ''now''" "OtherError ''boom''" None "[]" JUndefined "[]"
      three_cached]
  by (simp add: cat_args_def cat_args_valid cat_args_form optional_get_def)

section \<open>Properties of the cache and of the resources\<close>




lemma formatted_example:
  "JSON_stringify example_runtime (image_at ''cat'') =
     ''{'' @ [CHR 0x0A] @ ''  '' @ [CHR 0x22] @ ''url'' @ [CHR 0x22] @ '': '' @
     [CHR 0x22] @ ''cat'' @ [CHR 0x22] @ [CHR 0x0A] @ ''}''"
  by (simp add: image_at_def quote_def quote_char_def)


lemma unshift_pop_take:
  "length gs \<le> MAX_CACHED_GENERATIONS \<Longrightarrow>
   (if length gs < MAX_CACHED_GENERATIONS then g # gs else g # butlast gs) =
     take MAX_CACHED_GENERATIONS (g # gs)"
  by (cases "length gs < MAX_CACHED_GENERATIONS")
     (auto simp: MAX_CACHED_GENERATIONS_def butlast_conv_take)

text \<open>
  A \<^verbatim>\<open>generate_image\<close> call is a successful generation exactly when its arguments
  are valid, the form is built and the upstream call returns a response.
\<close>

lemma generated_tool:
  "generated (fst (handleRequest rt env (CallToolRequest ''generate_image'' params) srv)) \<longleftrightarrow>
     (\<exists>formData data. isValidImageGenerationArgs rt params = Inr True \<and>
        buildFormData rt params = Inr formData \<and> post env FLUX_IMAGE formData = Inr data)"
proof (cases rule: handle_cases [of rt params env srv])
  case (threw e)
  then show ?thesis by (simp add: lift_reply_def)
next
  case invalid
  then show ?thesis by (simp add: lift_reply_def)
next
  case (unbuilt error)
  then show ?thesis
    by (cases "catch_block rt error") (auto simp: lift_reply_def dest: catch_block_isError)
next
  case (failed formData error)
  then show ?thesis
    by (cases "catch_block rt error") (auto simp: lift_reply_def dest: catch_block_isError)
next
  case (succeeded formData data)
  then show ?thesis by (simp add: handle_success lift_reply_def)
qed

text \<open>
  One request: either it is a successful generation and a record goes to the front, the
  last one leaving when the cache was full, or the cache stays as it was.
\<close>

lemma step_cache:
  assumes "handleRequest rt env req srv = (out, srv')"
  shows "(generated out \<and>
            (\<exists>g. recentImageGenerations srv' =
               (if length (recentImageGenerations srv) < MAX_CACHED_GENERATIONS
                then g # recentImageGenerations srv
                else g # butlast (recentImageGenerations srv)))) \<or>
         (\<not> generated out \<and> recentImageGenerations srv' = recentImageGenerations srv)"
proof (cases req)
  case ListResourcesRequest
  with assms show ?thesis
    by (cases "listResources rt srv") (auto simp: lift_reply_def)
next
  case (ReadResourceRequest u)
  with assms show ?thesis
    by (cases "readResource rt u srv") (auto simp: lift_reply_def)
next
  case ListToolsRequest
  with assms show ?thesis by auto
next
  case (CallToolRequest name params)
  show ?thesis
  proof (cases "name = ''generate_image''")
    case False
    with assms CallToolRequest show ?thesis by auto
  next
    case True
    note req = CallToolRequest True
    show ?thesis
    proof (cases rule: handle_cases [of rt params env srv])
      case (threw e)
      with assms req show ?thesis by (auto simp: lift_reply_def)
    next
      case invalid
      with assms req show ?thesis by (auto simp: lift_reply_def)
    next
      case (unbuilt error)
      with assms req show ?thesis
        by (cases "catch_block rt error") (auto simp: lift_reply_def dest: catch_block_isError)
    next
      case (failed formData error)
      with assms req show ?thesis
        by (cases "catch_block rt error") (auto simp: lift_reply_def dest: catch_block_isError)
    next
      case (succeeded formData data)
      with assms req show ?thesis
        by (auto simp: handle_success lift_reply_def)
    qed
  qed
qed

lemma take_append_take: "take n (xs @ take n ys) = take n (xs @ ys)"
  by (induction xs arbitrary: n) (auto simp: take_Cons split: nat.splits)

text \<open>
  From a cache within the cap, a run leaves the records of its successful generations,
  newest first, in front of the old ones, cut at the cap.
\<close>

lemma run_cache:
  "length (recentImageGenerations srv) \<le> MAX_CACHED_GENERATIONS \<Longrightarrow>
   recentImageGenerations (run rt ops srv) =
     take MAX_CACHED_GENERATIONS (rev (inserted rt ops srv) @ recentImageGenerations srv)"
proof (induction ops arbitrary: srv)
  case Nil
  then show ?case by simp
next
  case (Cons a ops)
  obtain env req where a: "a = (env, req)" by (cases a)
  obtain out srv' where step: "handleRequest rt env req srv = (out, srv')"
    by (cases "handleRequest rt env req srv")
  from step_cache [OF step] show ?case
  proof (elim disjE conjE exE)
    fix g
    assume gen: "generated out"
      and new: "recentImageGenerations srv' =
        (if length (recentImageGenerations srv) < MAX_CACHED_GENERATIONS
         then g # recentImageGenerations srv else g # butlast (recentImageGenerations srv))"
    then have cache: "recentImageGenerations srv' =
        take MAX_CACHED_GENERATIONS (g # recentImageGenerations srv)"
      using Cons.prems by (simp only: unshift_pop_take)
    then have len: "length (recentImageGenerations srv') \<le> MAX_CACHED_GENERATIONS"
      by simp
    have front: "take (Suc 0) (recentImageGenerations srv') = [g]"
      by (simp add: cache MAX_CACHED_GENERATIONS_def)
    have ins: "inserted rt (a # ops) srv = g # inserted rt ops srv'"
      by (simp add: a step gen front)
    have "recentImageGenerations (run rt (a # ops) srv) = recentImageGenerations (run rt ops srv')"
      by (simp add: a step)
    also have "\<dots> = take MAX_CACHED_GENERATIONS
        (rev (inserted rt ops srv') @ take MAX_CACHED_GENERATIONS (g # recentImageGenerations srv))"
      by (simp only: Cons.IH [OF len] cache)
    also have "\<dots> = take MAX_CACHED_GENERATIONS
        (rev (inserted rt ops srv') @ g # recentImageGenerations srv)"
      by (rule take_append_take)
    also have "\<dots> = take MAX_CACHED_GENERATIONS
        (rev (inserted rt (a # ops) srv) @ recentImageGenerations srv)"
      by (simp only: ins rev.simps append_assoc append_Cons append_Nil)
    finally show ?thesis .
  next
    assume nogen: "\<not> generated out"
      and same: "recentImageGenerations srv' = recentImageGenerations srv"
    with Cons.prems have len: "length (recentImageGenerations srv') \<le> MAX_CACHED_GENERATIONS"
      by simp
    show ?thesis
      by (simp add: a step nogen Cons.IH [OF len] same)
  qed
qed

lemma inserted_successes: "length (inserted rt ops srv) = successes rt ops srv"
proof (induction ops arbitrary: srv)
  case Nil
  then show ?case by simp
next
  case (Cons a ops)
  obtain env req where a: "a = (env, req)" by (cases a)
  obtain out srv' where step: "handleRequest rt env req srv = (out, srv')"
    by (cases "handleRequest rt env req srv")
  have "generated out \<Longrightarrow> length (take 1 (recentImageGenerations srv')) = 1"
    using step_cache [OF step] by (auto split: if_splits)
  then show ?case by (simp add: a step Cons.IH)
qed

text \<open>
  Claim C1. After every run of requests from the new server the cache holds at most
  \<^verbatim>\<open>MAX_CACHED_GENERATIONS\<close> = 5 records: they are the records of the successful
  generations of the run, newest first, cut after the fifth, so their number is the
  smaller of the number of successful generations and 5. A \<^verbatim>\<open>generate_image\<close> call
  is a successful generation exactly when its arguments are valid, its form is built and
  the upstream call returns; it then puts the new record (prompt, payload, time) at
  index 0 in front of the old records and, when the cache already held 5, drops exactly
  the last of them.
\<close>

theorem recent_generations_bounded:
  "length (recentImageGenerations (run rt ops new_FluxImageServer)) \<le> MAX_CACHED_GENERATIONS \<and>
   MAX_CACHED_GENERATIONS = 5 \<and>
   recentImageGenerations (run rt ops new_FluxImageServer) =
     take MAX_CACHED_GENERATIONS (rev (inserted rt ops new_FluxImageServer)) \<and>
   length (recentImageGenerations (run rt ops new_FluxImageServer)) =
     min (successes rt ops new_FluxImageServer) MAX_CACHED_GENERATIONS \<and>
   (generated (fst (handleRequest rt env (CallToolRequest ''generate_image'' params) srv)) \<longleftrightarrow>
     (\<exists>formData data. isValidImageGenerationArgs rt params = Inr True \<and>
        buildFormData rt params = Inr formData \<and> post env FLUX_IMAGE formData = Inr data)) \<and>
   (isValidImageGenerationArgs rt params = Inr True \<and> buildFormData rt params = Inr formData \<and>
    post env FLUX_IMAGE formData = Inr data \<longrightarrow>
      recentImageGenerations (snd (handleGenerateImageTool rt env params srv)) =
        (if length (recentImageGenerations srv) < MAX_CACHED_GENERATIONS
         then \<lparr>prompt = get_prop params ''prompt'', response = data, timestamp = now env\<rparr>
              # recentImageGenerations srv
         else \<lparr>prompt = get_prop params ''prompt'', response = data, timestamp = now env\<rparr>
              # butlast (recentImageGenerations srv)))"
proof -
  have cache: "recentImageGenerations (run rt ops new_FluxImageServer) =
     take MAX_CACHED_GENERATIONS (rev (inserted rt ops new_FluxImageServer))"
    using run_cache [of new_FluxImageServer rt ops] by (simp add: new_FluxImageServer_def)
  have len: "length (recentImageGenerations (run rt ops new_FluxImageServer)) =
     min (successes rt ops new_FluxImageServer) MAX_CACHED_GENERATIONS"
    by (simp add: cache inserted_successes)
  show ?thesis
    using len cache generated_tool [of rt env params srv]
    by (auto simp: handle_success MAX_CACHED_GENERATIONS_def)
qed

lemma prompt_only_valid:
  "trim p \<noteq> [] \<Longrightarrow> isValidImageGenerationArgs rt (JObj [(''prompt'', JStr p)]) = Inr True"
  by (simp add: isValidImageGenerationArgs_def check_args_def check_prompt_def
      check_image_prompt_def check_image_prompt_strength_def check_aspect_ratio_def
      check_safety_tolerance_def check_seed_def check_output_format_def check_raw_def
      check_response_format_def)

lemma prompt_only_form:
  "buildFormData rt (JObj [(''prompt'', JStr p)]) =
     Inr [(''model'', ''flux-1.1-pro-ultra''), (''prompt'', p)]"
  by (simp add: buildFormData_def formData_append_def DEFAULT_PARAMS_def)

lemma generate_step:
  "trim name \<noteq> [] \<Longrightarrow>
   handleRequest rt (fst (generate name)) (snd (generate name)) srv =
     (Inr (ToolResult \<lparr>content = [Text (JSON_stringify rt (image_at name))], isError = None\<rparr>),
      srv\<lparr>posted := posted srv @
             [(FLUX_IMAGE, [(''model'', ''flux-1.1-pro-ultra''), (''prompt'', name)])],
          recentImageGenerations :=
            (if length (recentImageGenerations srv) < MAX_CACHED_GENERATIONS
             then generation name # recentImageGenerations srv
             else generation name # butlast (recentImageGenerations srv))\<rparr>)"
  by (simp add: generate_def generation_def lift_reply_def
      handle_success [OF prompt_only_valid prompt_only_form])

lemma trims: "trim ''one'' \<noteq> []" "trim ''two'' \<noteq> []" "trim ''three'' \<noteq> []"
  "trim ''four'' \<noteq> []" "trim ''five'' \<noteq> []" "trim ''six'' \<noteq> []" "trim ''a cat'' \<noteq> []"
  by (simp_all add: trim_def isWhiteSpace_def)


lemma run_Cons:
  "run rt (a # rest) srv = run rt rest (snd (handleRequest rt (fst a) (snd a) srv))"
  by (cases a) simp

lemma successes_Cons:
  "successes rt (a # rest) srv =
     (if generated (fst (handleRequest rt (fst a) (snd a) srv)) then 1 else 0) +
     successes rt rest (snd (handleRequest rt (fst a) (snd a) srv))"
  by (cases a) (simp split: prod.splits)

lemma generated_Contents: "generated (then_do r (\<lambda>x. Inr (Contents x))) = False"
  by (cases r) simp_all

lemma failing_step:
  "handleGenerateImageTool rt (failing error t) (JObj [(''prompt'', JStr ''a cat'')]) srv =
     (catch_block rt error,
      srv\<lparr>posted := posted srv @
             [(FLUX_IMAGE, [(''model'', ''flux-1.1-pro-ultra''), (''prompt'', ''a cat'')])]\<rparr>)"
  by (rule handle_failure [OF cat_args_valid cat_args_form]) simp

lemma busy_run_result:
  "recentImageGenerations (run rt busy_run new_FluxImageServer) =
     [generation ''six'', generation ''five'', generation ''four'', generation ''three'',
      generation ''two'']"
  by (simp add: busy_run_def run_Cons generate_step trims failing_step cat_args_def
      new_FluxImageServer_def MAX_CACHED_GENERATIONS_def lift_reply_def)

lemma busy_run_successes: "successes rt busy_run new_FluxImageServer = 6"
  by (simp add: busy_run_def successes_Cons generate_step trims failing_step cat_args_def
      new_FluxImageServer_def MAX_CACHED_GENERATIONS_def lift_reply_def generated_Contents
      nullish_or_def)

theorem recent_generations_bounded_witness:
  "successes example_runtime busy_run new_FluxImageServer = 6 \<and>
   recentImageGenerations (run example_runtime busy_run new_FluxImageServer) =
     [generation ''six'', generation ''five'', generation ''four'', generation ''three'',
      generation ''two''] \<and>
   length (recentImageGenerations (run example_runtime busy_run new_FluxImageServer)) = 5 \<and>
   recentImageGenerations (snd (handleGenerateImageTool example_runtime
       (answering (image_at ''sixth'') ''2025-01-01T00:00:00.000Z'')
       (JObj [(''prompt'', JStr ''sixth'')]) five_cached)) =
     [generation ''sixth'', generation ''fifth'', generation ''fourth'', generation ''third'',
      generation ''second'']"
proof -
  have hyp: "isValidImageGenerationArgs example_runtime (JObj [(''prompt'', JStr ''sixth'')]) =
      Inr True \<and>
    buildFormData example_runtime (JObj [(''prompt'', JStr ''sixth'')]) =
      Inr [(''model'', ''flux-1.1-pro-ultra''), (''prompt'', ''sixth'')] \<and>
    post (answering (image_at ''sixth'') ''2025-01-01T00:00:00.000Z'') FLUX_IMAGE
      [(''model'', ''flux-1.1-pro-ultra''), (''prompt'', ''sixth'')] = Inr (image_at ''sixth'')"
    by (simp add: prompt_only_valid prompt_only_form trim_def isWhiteSpace_def)
  note bounded = recent_generations_bounded [of example_runtime busy_run
      "answering (image_at ''sixth'') ''2025-01-01T00:00:00.000Z''"
      "JObj [(''prompt'', JStr ''sixth'')]" five_cached
      "[(''model'', ''flux-1.1-pro-ultra''), (''prompt'', ''sixth'')]" "image_at ''sixth''"]
  from bounded have len:
    "length (recentImageGenerations (run example_runtime busy_run new_FluxImageServer)) =
       min (successes example_runtime busy_run new_FluxImageServer) MAX_CACHED_GENERATIONS"
    by blast
  from bounded hyp have ins:
    "recentImageGenerations (snd (handleGenerateImageTool example_runtime
       (answering (image_at ''sixth'') ''2025-01-01T00:00:00.000Z'')
       (JObj [(''prompt'', JStr ''sixth'')]) five_cached)) =
     (if length (recentImageGenerations five_cached) < MAX_CACHED_GENERATIONS
      then \<lparr>prompt = get_prop (JObj [(''prompt'', JStr ''sixth'')]) ''prompt'',
             response = image_at ''sixth'',
             timestamp = now (answering (image_at ''sixth'') ''2025-01-01T00:00:00.000Z'')\<rparr>
           # recentImageGenerations five_cached
      else \<lparr>prompt = get_prop (JObj [(''prompt'', JStr ''sixth'')]) ''prompt'',
             response = image_at ''sixth'',
             timestamp = now (answering (image_at ''sixth'') ''2025-01-01T00:00:00.000Z'')\<rparr>
           # butlast (recentImageGenerations five_cached))"
    by blast
  show ?thesis
    unfolding ins len
    by (simp add: busy_run_result busy_run_successes five_cached_def generation_def
        MAX_CACHED_GENERATIONS_def)
qed

section \<open>Properties of the form builder\<close>

text \<open>
  A value that \<^verbatim>\<open>Number\<close> converts has a string form, unless it is \<^verbatim>\<open>null\<close>.
\<close>

lemma Number_gives_string:
  "Number rt v = Inr n \<Longrightarrow> v \<noteq> JUndefined \<Longrightarrow> v \<noteq> JNull \<Longrightarrow>
   \<exists>s. toString_call rt v = Inr s"
  by (cases v) (auto simp: toString_call_def split: sum.splits if_splits)

lemma typeof_string: "typeof v = ''string'' \<longleftrightarrow> (\<exists>s. v = JStr s)"
  by (cases v) simp_all

lemma typeof_boolean: "typeof v = ''boolean'' \<longleftrightarrow> (\<exists>b. v = JBool b)"
  by (cases v) simp_all

lemma array_includes_iff: "array_includes xs v \<longleftrightarrow> (\<exists>s. v = JStr s \<and> s \<in> set xs)"
  by (cases v) simp_all

text \<open>The two guards of the builder, on a value whose string form exists.\<close>

lemma truthy_step:
  "v = JUndefined \<or> (\<exists>s. v = JStr s) \<Longrightarrow>
   (if ToBoolean v then formData_append rt k v formData else Inr formData) =
     Inr (formData @
          (if v \<noteq> JUndefined \<and> v \<noteq> JStr [] then [(k, projr (toString_call rt v))] else []))"
  by (auto simp: formData_append_def toString_call_def)

lemma defined_step:
  "v = JUndefined \<or> (\<exists>s. toString_call rt v = Inr s) \<Longrightarrow>
   (if v \<noteq> JUndefined then formData_append_toString rt k v formData else Inr formData) =
     Inr (formData @ (if v \<noteq> JUndefined then [(k, projr (toString_call rt v))] else []))"
  by (auto simp: formData_append_def formData_append_toString_def)


lemma concat_entries_keys:
  "map fst (concat (map (\<lambda>k. if c k then [(k, f k)] else []) ks)) = filter c ks"
  by (induction ks) simp_all

lemma concat_entries_values:
  "(k, s) \<in> set (concat (map (\<lambda>k. if c k then [(k, f k)] else []) ks)) \<Longrightarrow>
   k \<in> set ks \<and> c k \<and> s = f k"
  by (induction ks) (auto split: if_splits)

text \<open>
  The form of a valid request whose numeric fields are not \<^verbatim>\<open>null\<close>, written out:
  model and prompt, then one entry for each optional field that passes its guard.
\<close>

lemma valid_form:
  assumes valid: "isValidImageGenerationArgs rt params = Inr True"
    and strength: "get_prop params ''image_prompt_strength'' \<noteq> JNull"
    and seed: "get_prop params ''seed'' \<noteq> JNull"
  shows "\<exists>p. get_prop params ''prompt'' = JStr p \<and>
     buildFormData rt params =
       Inr ([(''model'', ''flux-1.1-pro-ultra''), (''prompt'', p)] @
            concat (map (\<lambda>k. if get_prop params k \<noteq> JUndefined \<and>
                               \<not> (k = ''image_prompt'' \<and> get_prop params k = JStr [])
                             then [(k, projr (toString_call rt (get_prop params k)))] else [])
                      optional_fields)) \<and>
     (\<forall>k \<in> set optional_fields. get_prop params k \<noteq> JUndefined \<longrightarrow>
        (\<exists>s. toString_call rt (get_prop params k) = Inr s))"
proof -
  from valid have checks: "check_prompt params" "check_image_prompt params"
    "check_image_prompt_strength rt params = Inr True" "check_aspect_ratio params"
    "check_safety_tolerance rt params = Inr True" "check_seed rt params = Inr True"
    "check_output_format params" "check_raw params" "check_response_format params"
    by (simp_all add: isValid_steps)
  from checks(1) obtain p where p: "get_prop params ''prompt'' = JStr p"
    by (auto simp: check_prompt_def typeof_string)
  from checks(2) have ip: "get_prop params ''image_prompt'' = JUndefined \<or>
      (\<exists>s. get_prop params ''image_prompt'' = JStr s)"
    by (auto simp: check_image_prompt_def typeof_string)
  from checks(3) strength have st: "get_prop params ''image_prompt_strength'' = JUndefined \<or>
      (\<exists>s. toString_call rt (get_prop params ''image_prompt_strength'') = Inr s)"
    by (auto simp: check_image_prompt_strength_def split: if_splits sum.splits
        intro: Number_gives_string)
  from checks(4) have ar: "get_prop params ''aspect_ratio'' = JUndefined \<or>
      (\<exists>s. get_prop params ''aspect_ratio'' = JStr s \<and> s \<noteq> [])"
    by (auto simp: check_aspect_ratio_def array_includes_iff validRatios_def)
  from checks(5) have tol: "get_prop params ''safety_tolerance'' = JUndefined \<or>
      (\<exists>s. toString_call rt (get_prop params ''safety_tolerance'') = Inr s)"
  proof (cases "get_prop params ''safety_tolerance'' = JUndefined")
    case True
    then show ?thesis by simp
  next
    case False
    with checks(5) obtain n where n: "Number rt (get_prop params ''safety_tolerance'') = Inr n"
      "\<not> js_less n (Fin 1)"
      by (auto simp: check_safety_tolerance_def split: sum.splits)
    then have "get_prop params ''safety_tolerance'' \<noteq> JNull" by auto
    with n(1) False show ?thesis by (auto intro: Number_gives_string)
  qed
  from checks(6) seed have sd: "get_prop params ''seed'' = JUndefined \<or>
      (\<exists>s. toString_call rt (get_prop params ''seed'') = Inr s)"
    by (auto simp: check_seed_def split: if_splits sum.splits intro: Number_gives_string)
  from checks(7) have fmt: "get_prop params ''output_format'' = JUndefined \<or>
      (\<exists>s. get_prop params ''output_format'' = JStr s \<and> s \<noteq> [])"
    by (auto simp: check_output_format_def array_includes_iff)
  from checks(8) have raw: "get_prop params ''raw'' = JUndefined \<or>
      (\<exists>s. toString_call rt (get_prop params ''raw'') = Inr s)"
    by (auto simp: check_raw_def typeof_boolean toString_call_def)
  from checks(9) have rf: "get_prop params ''response_format'' = JUndefined \<or>
      (\<exists>s. get_prop params ''response_format'' = JStr s \<and> s \<noteq> [])"
    by (auto simp: check_response_format_def array_includes_iff)
  have ar': "get_prop params ''aspect_ratio'' \<noteq> JStr []"
    and fmt': "get_prop params ''output_format'' \<noteq> JStr []"
    and rf': "get_prop params ''response_format'' \<noteq> JStr []"
    using ar fmt rf by auto
  have ar'': "get_prop params ''aspect_ratio'' = JUndefined \<or>
      (\<exists>s. get_prop params ''aspect_ratio'' = JStr s)"
    and fmt'': "get_prop params ''output_format'' = JUndefined \<or>
      (\<exists>s. get_prop params ''output_format'' = JStr s)"
    and rf'': "get_prop params ''response_format'' = JUndefined \<or>
      (\<exists>s. get_prop params ''response_format'' = JStr s)"
    using ar fmt rf by auto
  have build: "buildFormData rt params =
       Inr ([(''model'', ''flux-1.1-pro-ultra''), (''prompt'', p)] @
            concat (map (\<lambda>k. if get_prop params k \<noteq> JUndefined \<and>
                               \<not> (k = ''image_prompt'' \<and> get_prop params k = JStr [])
                             then [(k, projr (toString_call rt (get_prop params k)))] else [])
                      optional_fields))"
    unfolding buildFormData_def
    by (simp add: p formData_append_def DEFAULT_PARAMS_def optional_fields_def
        truthy_step [OF ip] defined_step [OF st] truthy_step [OF ar''] defined_step [OF tol]
        defined_step [OF sd] truthy_step [OF fmt''] defined_step [OF raw] truthy_step [OF rf'']
        ar' fmt' rf')
  have strings: "\<forall>k \<in> set optional_fields. get_prop params k \<noteq> JUndefined \<longrightarrow>
        (\<exists>s. toString_call rt (get_prop params k) = Inr s)"
  proof -
    have str: "v = JUndefined \<or> (\<exists>s. v = JStr s) \<Longrightarrow>
        v \<noteq> JUndefined \<longrightarrow> (\<exists>s. toString_call rt v = Inr s)" for v
      by (auto simp: toString_call_def)
    have def: "v = JUndefined \<or> (\<exists>s. toString_call rt v = Inr s) \<Longrightarrow>
        v \<noteq> JUndefined \<longrightarrow> (\<exists>s. toString_call rt v = Inr s)" for v
      by auto
    show ?thesis
      by (simp add: optional_fields_def str [OF ip] def [OF st] str [OF ar''] def [OF tol]
          def [OF sd] str [OF fmt''] def [OF raw] str [OF rf''])
  qed
  from p build strings show ?thesis by blast
qed


text \<open>
  Claim C2, as amended. For every request the validator accepts in which
  \<^verbatim>\<open>image_prompt_strength\<close> and \<^verbatim>\<open>seed\<close> are not \<^verbatim>\<open>null\<close>, the builder
  returns a form. Its first two entries are the fixed model identifier and the prompt.
  The entries after them are, in the order of the builder, exactly the optional fields
  that are present, \<^verbatim>\<open>image_prompt\<close> only when it is also not the empty string; each
  carries the string form (\<^verbatim>\<open>toString()\<close>) of the value of its field. So an absent
  optional field has no entry, and no default of \<^verbatim>\<open>DEFAULT_PARAMS\<close> other than
  the model is sent.
\<close>

theorem form_fields_of_valid_request:
  assumes "isValidImageGenerationArgs rt params = Inr True"
    and "get_prop params ''image_prompt_strength'' \<noteq> JNull"
    and "get_prop params ''seed'' \<noteq> JNull"
  shows "\<exists>p formData. get_prop params ''prompt'' = JStr p \<and>
     buildFormData rt params = Inr formData \<and>
     take 2 formData = [(''model'', ''flux-1.1-pro-ultra''), (''prompt'', p)] \<and>
     map fst (drop 2 formData) =
       filter (\<lambda>k. get_prop params k \<noteq> JUndefined \<and>
                   \<not> (k = ''image_prompt'' \<and> get_prop params k = JStr []))
         optional_fields \<and>
     (\<forall>(k, s) \<in> set (drop 2 formData). toString_call rt (get_prop params k) = Inr s)"
proof -
  from valid_form [OF assms] obtain p where p: "get_prop params ''prompt'' = JStr p"
    and build: "buildFormData rt params =
       Inr ([(''model'', ''flux-1.1-pro-ultra''), (''prompt'', p)] @
            concat (map (\<lambda>k. if get_prop params k \<noteq> JUndefined \<and>
                               \<not> (k = ''image_prompt'' \<and> get_prop params k = JStr [])
                             then [(k, projr (toString_call rt (get_prop params k)))] else [])
                      optional_fields))"
    and strings: "\<forall>k \<in> set optional_fields. get_prop params k \<noteq> JUndefined \<longrightarrow>
        (\<exists>s. toString_call rt (get_prop params k) = Inr s)"
    by blast
  let ?rest = "concat (map (\<lambda>k. if get_prop params k \<noteq> JUndefined \<and>
                               \<not> (k = ''image_prompt'' \<and> get_prop params k = JStr [])
                             then [(k, projr (toString_call rt (get_prop params k)))] else [])
                      optional_fields)"
  let ?form = "[(''model'', ''flux-1.1-pro-ultra''), (''prompt'', p)] @ ?rest"
  have "take 2 ?form = [(''model'', ''flux-1.1-pro-ultra''), (''prompt'', p)]"
    by simp
  moreover have rest: "drop 2 ?form = ?rest"
    by simp
  moreover have "map fst ?rest =
      filter (\<lambda>k. get_prop params k \<noteq> JUndefined \<and>
                  \<not> (k = ''image_prompt'' \<and> get_prop params k = JStr []))
        optional_fields"
    by (rule concat_entries_keys)
  moreover have "\<forall>(k, s) \<in> set ?rest. toString_call rt (get_prop params k) = Inr s"
  proof (clarify)
    fix k s
    assume "(k, s) \<in> set ?rest"
    then have "k \<in> set optional_fields" "get_prop params k \<noteq> JUndefined"
      "s = projr (toString_call rt (get_prop params k))"
      by (auto dest!: concat_entries_values)
    with strings show "toString_call rt (get_prop params k) = Inr s"
      by auto
  qed
  ultimately show ?thesis using p build by (metis (no_types, lifting))
qed

text \<open>
  Claim C2, as stated, fails: the request with the prompt \<^verbatim>\<open>a cat\<close> and the empty
  string as \<^verbatim>\<open>image_prompt\<close> is accepted, \<^verbatim>\<open>image_prompt\<close> is present in it, and
  the form has the model and the prompt only, because the builder guards string fields
  by their truth value.
\<close>

theorem form_omits_empty_image_prompt:
  "isValidImageGenerationArgs example_runtime empty_image_prompt_args = Inr True \<and>
   get_prop empty_image_prompt_args ''image_prompt'' = JStr [] \<and>
   buildFormData example_runtime empty_image_prompt_args =
     Inr [(''model'', ''flux-1.1-pro-ultra''), (''prompt'', ''a cat'')]"
  by (simp add: empty_image_prompt_args_def validator_defs and_then_def buildFormData_def
      formData_append_def DEFAULT_PARAMS_def)

text \<open>
  The validator also accepts \<^verbatim>\<open>null\<close> as \<^verbatim>\<open>seed\<close> (\<^verbatim>\<open>Number(null)\<close> is the
  integer 0); there the builder calls \<^verbatim>\<open>toString\<close> on \<^verbatim>\<open>null\<close>, and the
  \<^verbatim>\<open>TypeError\<close> leaves the handler with no form built and no call made.
\<close>

lemma null_seed_throws:
  "isValidImageGenerationArgs example_runtime null_seed_args = Inr True \<and>
   buildFormData example_runtime null_seed_args = Inl TypeError \<and>
   handleGenerateImageTool example_runtime env null_seed_args srv = (Inl TypeError, srv)"
  by (simp add: null_seed_args_def validator_defs and_then_def buildFormData_def
      formData_append_def formData_append_toString_def toString_call_def DEFAULT_PARAMS_def
      handleGenerateImageTool_def)

lemma printed: "decimal (Suc 0) = ''1''" "decimal 3 = ''3''" "decimal 42 = ''42''"
  by code_simp+

theorem form_fields_of_valid_request_witness:
  "isValidImageGenerationArgs example_runtime full_args = Inr True \<and>
   get_prop full_args ''image_prompt_strength'' \<noteq> JNull \<and>
   get_prop full_args ''seed'' \<noteq> JNull \<and>
   buildFormData example_runtime full_args =
     Inr [(''model'', ''flux-1.1-pro-ultra''), (''prompt'', ''a cat''),
          (''image_prompt'', ''https://example.com/cat.png''),
          (''image_prompt_strength'', ''1''), (''aspect_ratio'', ''16:9''),
          (''safety_tolerance'', ''3''), (''seed'', ''42''), (''output_format'', ''png''),
          (''raw'', ''true''), (''response_format'', ''url'')] \<and>
   buildFormData example_runtime cat_args =
     Inr [(''model'', ''flux-1.1-pro-ultra''), (''prompt'', ''a cat'')]"
  using form_fields_of_valid_request [of example_runtime full_args]
    form_fields_of_valid_request [of example_runtime cat_args]
  by (simp add: full_args_def cat_args_def validator_defs and_then_def buildFormData_def
      formData_append_def formData_append_toString_def toString_call_def DEFAULT_PARAMS_def printed)

end
